theory Spec2Isabelle
  imports Main "HOL-Library.Sublist"
begin

section \<open>Python text\<close>

text \<open>
  A Python \<open>str\<close> is a sequence of Unicode code points; a code point is a natural
  number here, and \<open>str_of\<close> reads an ASCII literal. The character classes of the
  interpreter are fixed on ASCII; what they say about the code points from 128 on comes
  from the interpreter's Unicode database, which is a parameter of the development
  (\<open>uni_lower\<close> is \<open>str.lower\<close> on the strings that are not pure ASCII).
\<close>

type_synonym pystr = "nat list"

definition str_of :: "string \<Rightarrow> pystr" where
  "str_of s = map of_char s"

record unicode_db =
  uni_isspace :: "nat \<Rightarrow> bool"
  uni_isalnum :: "nat \<Rightarrow> bool"
  uni_decimal :: "nat \<Rightarrow> nat option"
  uni_isdigit :: "nat \<Rightarrow> bool"
  uni_lower :: "pystr \<Rightarrow> pystr"

text \<open>A database that knows no character outside ASCII, for closed examples.\<close>

definition ascii_db :: unicode_db where
  "ascii_db = \<lparr>uni_isspace = (\<lambda>c. False), uni_isalnum = (\<lambda>c. False),
     uni_decimal = (\<lambda>c. None), uni_isdigit = (\<lambda>c. False), uni_lower = (\<lambda>s. s)\<rparr>"

text \<open>\<open>str.isspace\<close> of one character, also the class \<open>\s\<close> and what \<open>str.strip\<close> removes.\<close>

definition is_space :: "unicode_db \<Rightarrow> nat \<Rightarrow> bool" where
  "is_space U c =
     (if c < 128 then (9 \<le> c \<and> c \<le> 13) \<or> (28 \<le> c \<and> c \<le> 32) else uni_isspace U c)"

definition ascii_alnum :: "nat \<Rightarrow> bool" where
  "ascii_alnum c = ((48 \<le> c \<and> c \<le> 57) \<or> (65 \<le> c \<and> c \<le> 90) \<or> (97 \<le> c \<and> c \<le> 122))"

text \<open>The class \<open>\w\<close>: alphanumeric or the underscore.\<close>

definition is_word :: "unicode_db \<Rightarrow> nat \<Rightarrow> bool" where
  "is_word U c = (if c < 128 then ascii_alnum c \<or> c = 95 else uni_isalnum U c)"

text \<open>The class \<open>\d\<close> and the value \<open>int\<close> gives the digit.\<close>

definition decimal_value :: "unicode_db \<Rightarrow> nat \<Rightarrow> nat option" where
  "decimal_value U c =
     (if c < 128 then (if 48 \<le> c \<and> c \<le> 57 then Some (c - 48) else None) else uni_decimal U c)"

definition is_decimal :: "unicode_db \<Rightarrow> nat \<Rightarrow> bool" where
  "is_decimal U c = (decimal_value U c \<noteq> None)"

text \<open>\<open>str.strip()\<close>, and the slice \<open>s[:n]\<close> (a negative \<open>n\<close> counts from the end).\<close>

definition strip :: "unicode_db \<Rightarrow> pystr \<Rightarrow> pystr" where
  "strip U s = rev (dropWhile (is_space U) (rev (dropWhile (is_space U) s)))"

definition slice_to :: "int \<Rightarrow> pystr \<Rightarrow> pystr" where
  "slice_to n s = (if 0 \<le> n then take (nat n) s else take (nat (int (length s) + n)) s)"


section \<open>Filename sanitization\<close>

text \<open>
  Both sanitizers substitute the empty string for every match of the pattern
  \<^verbatim>\<open>[^\w\-\s]\<close>: a character stays when it is a word character, the hyphen or
  whitespace. (The downloader reads the pattern from its configuration; this is its
  default, the pattern the reformatter has fixed.)
\<close>

definition keeps :: "unicode_db \<Rightarrow> nat \<Rightarrow> bool" where
  "keeps U c = (is_word U c \<or> c = 45 \<or> is_space U c)"

text \<open>AiReformatter.\_sanitize\_filename\<close>

definition reformatter_sanitize_filename :: "unicode_db \<Rightarrow> pystr \<Rightarrow> pystr" where
  "reformatter_sanitize_filename U title = filter (keeps U) title"

text \<open>YoutubeTranscriptDownloader.sanitize\_filename\<close>

definition TRANSCRIPT_FILENAME_LENGTH :: int where
  "TRANSCRIPT_FILENAME_LENGTH = 36"

definition sanitize_filename :: "unicode_db \<Rightarrow> pystr \<Rightarrow> int \<Rightarrow> pystr" where
  "sanitize_filename U name max_length =
     (let sanitized = slice_to max_length (strip U (filter (keeps U) name))
      in if sanitized \<noteq> [] then sanitized else str_of ''untitled'')"

section \<open>Exceptions\<close>

text \<open>The exceptions the modelled code can raise.\<close>

datatype pyexc =
    KeyError | TypeError | AttributeError | IndexError | ValueError | EOFError
  | JSONDecodeError | FileNotFoundError | FileExistsError | IsADirectoryError
  | NotADirectoryError | APIError | UnicodeEncodeError

section \<open>Durations\<close>

text \<open>The number a string of decimal digits denotes.\<close>

definition digits_value :: "unicode_db \<Rightarrow> pystr \<Rightarrow> nat" where
  "digits_value U ds =
     foldl (\<lambda>a c. 10 * a + (case decimal_value U c of Some v \<Rightarrow> v | None \<Rightarrow> 0)) 0 ds"

text \<open>
  The interpreter converts between integers and decimal text only up to
  \<open>sys.get_int_max_str_digits()\<close> digits, 4300 unless the operator has set another
  limit; the program sets none. Every digit of the text counts, leading zeros too, and
  a sign does not.
\<close>

definition int_max_str_digits :: nat where
  "int_max_str_digits = 4300"

text \<open>
  \<open>int(s)\<close> on a string of digit characters (no sign, blank or underscore, which the
  callers below exclude): the decimal value, and \<open>ValueError\<close> (\<open>None\<close>) when the string
  is empty, holds a character that is no decimal digit, or has more digits than the
  limit.
\<close>

definition py_int :: "unicode_db \<Rightarrow> pystr \<Rightarrow> nat option" where
  "py_int U s =
     (if s \<noteq> [] \<and> list_all (is_decimal U) s \<and> length s \<le> int_max_str_digits
      then Some (digits_value U s) else None)"

text \<open>\<open>str(n)\<close> for a non-negative integer, and the format \<open>{n:02}\<close>.\<close>

fun str_nat :: "nat \<Rightarrow> pystr" where
  "str_nat n = (if n < 10 then [48 + n] else str_nat (n div 10) @ [48 + n mod 10])"

declare str_nat.simps [simp del]

definition format_02 :: "nat \<Rightarrow> pystr" where
  "format_02 n = replicate (2 - length (str_nat n)) 48 @ str_nat n"

text \<open>
  One optional group \<^verbatim>\<open>(?:(\d+)X)?\<close> of the pattern, matched at the head of \<open>s\<close>:
  the captured digits and the rest of the text. \<^verbatim>\<open>\d+\<close> is greedy and takes the whole
  run of digits; a shorter run would be followed by a digit and not by the letter, so
  backtracking finds nothing more, and the group is skipped when the run is empty or the
  letter does not follow it.
\<close>

definition opt_group :: "unicode_db \<Rightarrow> nat \<Rightarrow> pystr \<Rightarrow> pystr option \<times> pystr" where
  "opt_group U letter s =
     (let ds = takeWhile (is_decimal U) s; rest = dropWhile (is_decimal U) s
      in if ds \<noteq> [] \<and> rest \<noteq> [] \<and> hd rest = letter then (Some ds, tl rest) else (None, s))"

text \<open>
  \<open>re.match\<close> of the default pattern \<^verbatim>\<open>PT(?:(\d+)H)?(?:(\d+)M)?(?:(\d+)S)?\<close>: the match
  is anchored at the start of the string only, and every group is optional, so it
  succeeds exactly when the string begins with \<open>PT\<close>. The result is \<open>match.groups()\<close>.
\<close>

definition iso_duration_match ::
  "unicode_db \<Rightarrow> pystr \<Rightarrow> (pystr option \<times> pystr option \<times> pystr option) option" where
  "iso_duration_match U s =
     (if prefix (str_of ''PT'') s then
        (let (h, s1) = opt_group U 72 (drop 2 s);
             (m, s2) = opt_group U 77 s1;
             (sec, s3) = opt_group U 83 s2
         in Some (h, m, sec))
      else None)"

text \<open>\<open>int(g) if g else 0\<close> for a group \<open>g\<close>; \<open>Inl\<close> is the exception \<open>int\<close> raises.\<close>

definition group_value :: "unicode_db \<Rightarrow> pystr option \<Rightarrow> pyexc + nat" where
  "group_value U g =
     (case g of
        None \<Rightarrow> Inr 0
      | Some ds \<Rightarrow>
          if ds \<noteq> [] then (case py_int U ds of Some n \<Rightarrow> Inr n | None \<Rightarrow> Inl ValueError)
          else Inr 0)"

text \<open>format\_duration has no handler: an exception of \<open>int\<close> leaves it.\<close>

definition format_duration :: "unicode_db \<Rightarrow> pystr \<Rightarrow> pyexc + pystr" where
  "format_duration U iso_duration =
     (case iso_duration_match U iso_duration of
        None \<Rightarrow> Inr (str_of ''00:00'')
      | Some (hours, minutes, _) \<Rightarrow>
          (case group_value U hours of
             Inl e \<Rightarrow> Inl e
           | Inr h \<Rightarrow>
               (case group_value U minutes of
                  Inl e \<Rightarrow> Inl e
                | Inr m \<Rightarrow> Inr (format_02 h @ [58] @ format_02 m))))"

text \<open>
  The shape the specification names, \<open>PT#H#M#S\<close> with every component optional, as a
  text built from its components; a component is a non-empty string of decimal digits.
\<close>

definition digit_string :: "unicode_db \<Rightarrow> pystr \<Rightarrow> bool" where
  "digit_string U ds = (ds \<noteq> [] \<and> list_all (is_decimal U) ds)"

definition component_ok :: "unicode_db \<Rightarrow> pystr option \<Rightarrow> bool" where
  "component_ok U g = (case g of None \<Rightarrow> True | Some ds \<Rightarrow> digit_string U ds)"

definition iso_component :: "pystr option \<Rightarrow> nat \<Rightarrow> pystr" where
  "iso_component g letter = (case g of None \<Rightarrow> [] | Some ds \<Rightarrow> ds @ [letter])"

definition iso_text :: "pystr option \<Rightarrow> pystr option \<Rightarrow> pystr option \<Rightarrow> pystr" where
  "iso_text h m sec = str_of ''PT'' @ iso_component h 72 @ iso_component m 77 @ iso_component sec 83"

text \<open>A component \<open>int\<close> converts, and a number as a component.\<close>

definition component_fits :: "pystr option \<Rightarrow> bool" where
  "component_fits g = (case g of None \<Rightarrow> True | Some ds \<Rightarrow> length ds \<le> int_max_str_digits)"

definition component_value :: "unicode_db \<Rightarrow> pystr option \<Rightarrow> nat" where
  "component_value U g = (case g of None \<Rightarrow> 0 | Some ds \<Rightarrow> digits_value U ds)"

definition number_component :: "nat option \<Rightarrow> pystr option" where
  "number_component k = map_option str_nat k"

definition number_value :: "nat option \<Rightarrow> nat" where
  "number_value k = (case k of None \<Rightarrow> 0 | Some n \<Rightarrow> n)"

definition iso_shape :: "unicode_db \<Rightarrow> pystr \<Rightarrow> bool" where
  "iso_shape U s =
     (\<exists>h m sec. component_ok U h \<and> component_ok U m \<and> component_ok U sec \<and> s = iso_text h m sec)"

section \<open>JSON values and exceptions\<close>

text \<open>
  What \<open>json.load\<close> returns: \<open>None\<close>, booleans, integers, strings, lists and
  dictionaries (in insertion order, the keys strings). Numbers with a fraction or an
  exponent become Python floats and are not part of the model. \<open>JNull\<close> is also the
  \<open>None\<close> of a missing \<open>dict.get\<close>.
\<close>

datatype json =
    JNull
  | JBool bool
  | JInt int
  | JStr pystr
  | JArr "json list"
  | JObj "(pystr \<times> json) list"

text \<open>The truth value of an object, as \<open>if x\<close>, \<open>x and y\<close> and \<open>x or y\<close> test it.\<close>

fun truthy :: "json \<Rightarrow> bool" where
  "truthy JNull = False"
| "truthy (JBool b) = b"
| "truthy (JInt i) = (i \<noteq> 0)"
| "truthy (JStr s) = (s \<noteq> [])"
| "truthy (JArr xs) = (xs \<noteq> [])"
| "truthy (JObj kvs) = (kvs \<noteq> [])"

text \<open>\<open>x[key]\<close> for a string key, \<open>x.get(key)\<close> and \<open>x[key] = v\<close> on a dictionary.\<close>

fun subscript :: "json \<Rightarrow> pystr \<Rightarrow> pyexc + json" where
  "subscript (JObj kvs) key = (case map_of kvs key of Some v \<Rightarrow> Inr v | None \<Rightarrow> Inl KeyError)"
| "subscript _ key = Inl TypeError"

fun dict_get :: "json \<Rightarrow> pystr \<Rightarrow> pyexc + json" where
  "dict_get (JObj kvs) key = Inr (case map_of kvs key of Some v \<Rightarrow> v | None \<Rightarrow> JNull)"
| "dict_get _ key = Inl AttributeError"

fun dict_set :: "(pystr \<times> json) list \<Rightarrow> pystr \<Rightarrow> json \<Rightarrow> (pystr \<times> json) list" where
  "dict_set [] key v = [(key, v)]"
| "dict_set ((k, x) # kvs) key v = (if k = key then (key, v) # kvs else (k, x) # dict_set kvs key v)"

subsection \<open>Serialization\<close>

text \<open>
  \<open>json.dumps(obj, ensure_ascii=False, indent=n)\<close>, the text of a value that can be
  serialized. With \<open>ensure_ascii=False\<close> the encoder escapes the quote, the backslash
  and the control characters below 32, and leaves every other character as it is.
\<close>

definition hex_digit :: "nat \<Rightarrow> nat" where
  "hex_digit d = (if d < 10 then 48 + d else 87 + d)"

definition escape_char :: "nat \<Rightarrow> pystr" where
  "escape_char c =
     (if c = 34 then [92, 34]
      else if c = 92 then [92, 92]
      else if c = 10 then [92, 110]
      else if c = 13 then [92, 114]
      else if c = 9 then [92, 116]
      else if c = 8 then [92, 98]
      else if c = 12 then [92, 102]
      else if c < 32 then [92, 117, 48, 48, hex_digit (c div 16), hex_digit (c mod 16)]
      else [c])"

definition encode_basestring :: "pystr \<Rightarrow> pystr" where
  "encode_basestring s = [34] @ concat (map escape_char s) @ [34]"

definition str_int :: "int \<Rightarrow> pystr" where
  "str_int i = (if i < 0 then 45 # str_nat (nat (- i)) else str_nat (nat i))"

text \<open>\<open>sep.join(parts)\<close>\<close>

fun join :: "pystr \<Rightarrow> pystr list \<Rightarrow> pystr" where
  "join sep [] = []"
| "join sep [x] = x"
| "join sep (x # y # ys) = x @ sep @ join sep (y # ys)"

definition newline_indent :: "nat \<Rightarrow> nat \<Rightarrow> pystr" where
  "newline_indent indent level = 10 # replicate (indent * level) 32"


subsection \<open>Writing a value to a file\<close>

text \<open>
  \<open>json.dump(obj, f, ensure_ascii=False, indent=n)\<close> runs the encoder as a generator
  and writes its chunks to the file one by one. With an indent the generator is the
  library's \<open>_make_iterencode\<close>: a scalar is one chunk; a list gives the bracket, the
  line break and a scalar item in one chunk, and for an item that is a list or a
  dictionary the bracket and line break (or the separator) first and then the chunks of
  the item; a dictionary gives the brace, the line break, and then key, colon and value
  as chunks of their own. \<open>None\<close> stands for the step at which the generator raises
  \<open>ValueError\<close>: an integer with more digits than the interpreter converts to text.
\<close>

definition int_repr :: "int \<Rightarrow> pystr option" where
  "int_repr i =
     (if length (str_nat (nat \<bar>i\<bar>)) \<le> int_max_str_digits then Some (str_int i) else None)"

fun is_container :: "json \<Rightarrow> bool" where
  "is_container (JArr xs) = True"
| "is_container (JObj kvs) = True"
| "is_container _ = False"

definition item_chunks :: "pystr \<Rightarrow> json \<Rightarrow> pystr option list \<Rightarrow> pystr option list" where
  "item_chunks buf value chunks =
     (if is_container value then Some buf # chunks else map (map_option (\<lambda>t. buf @ t)) chunks)"

fun list_chunks :: "pystr \<Rightarrow> pystr \<Rightarrow> (json \<times> pystr option list) list \<Rightarrow> pystr option list" where
  "list_chunks buf separator [] = []"
| "list_chunks buf separator ((value, chunks) # rest) =
     item_chunks buf value chunks @ list_chunks separator separator rest"

fun dict_chunks ::
  "pystr option list \<Rightarrow> pystr option list \<Rightarrow> (pystr \<times> pystr option list) list
     \<Rightarrow> pystr option list" where
  "dict_chunks first separator [] = []"
| "dict_chunks first separator ((key, chunks) # rest) =
     first @ [Some (encode_basestring key), Some [58, 32]] @ chunks
     @ dict_chunks separator separator rest"

fun json_chunks :: "nat \<Rightarrow> nat \<Rightarrow> json \<Rightarrow> pystr option list" where
  "json_chunks indent level JNull = [Some (str_of ''null'')]"
| "json_chunks indent level (JBool b) = [Some (if b then str_of ''true'' else str_of ''false'')]"
| "json_chunks indent level (JInt i) = [int_repr i]"
| "json_chunks indent level (JStr s) = [Some (encode_basestring s)]"
| "json_chunks indent level (JArr xs) =
     (if xs = [] then [Some (str_of ''[]'')]
      else list_chunks ([91] @ newline_indent indent (Suc level))
             (44 # newline_indent indent (Suc level))
             (map (\<lambda>x. (x, json_chunks indent (Suc level) x)) xs)
           @ [Some (newline_indent indent level), Some [93]])"
| "json_chunks indent level (JObj kvs) =
     (if kvs = [] then [Some (str_of ''{}'')]
      else [Some [123], Some (newline_indent indent (Suc level))]
           @ dict_chunks [] [Some (44 # newline_indent indent (Suc level))]
               (map (\<lambda>kv. (fst kv, json_chunks indent (Suc level) (snd kv))) kvs)
           @ [Some (newline_indent indent level), Some [125]])"

text \<open>
  The file is open for text in UTF-8. A chunk is encoded when it is written, and a
  chunk with a surrogate code point (U+D800 to U+DFFF, which \<open>json.loads\<close> accepts in
  an escape) cannot be encoded: \<open>write\<close> raises \<open>UnicodeEncodeError\<close> and nothing of the
  chunk is written. \<open>emit\<close> gives the exception, if any, and the text written so far.
\<close>

definition is_surrogate :: "nat \<Rightarrow> bool" where
  "is_surrogate c = (55296 \<le> c \<and> c \<le> 57343)"

fun emit :: "pystr \<Rightarrow> pystr option list \<Rightarrow> pyexc option \<times> pystr" where
  "emit written [] = (None, written)"
| "emit written (None # rest) = (Some ValueError, written)"
| "emit written (Some chunk # rest) =
     (if list_ex is_surrogate chunk then (Some UnicodeEncodeError, written)
      else emit (written @ chunk) rest)"


section \<open>Paths and files\<close>

text \<open>\<open>s.split(sep)\<close> for a one-character separator, and \<open>os.path.join\<close> (POSIX).\<close>

fun split_on :: "nat \<Rightarrow> pystr \<Rightarrow> pystr list" where
  "split_on sep [] = [[]]"
| "split_on sep (c # cs) =
     (if c = sep then [] # split_on sep cs
      else (c # hd (split_on sep cs)) # tl (split_on sep cs))"

definition os_path_join :: "pystr \<Rightarrow> pystr \<Rightarrow> pystr" where
  "os_path_join a b =
     (if b \<noteq> [] \<and> hd b = 47 then b
      else if a = [] \<or> last a = 47 then a @ b
      else a @ [47] @ b)"

text \<open>
  The world the reformatter runs in: the working directory, the directories and the
  text files on disk, what has been printed, and how many requests have gone to the
  model. A path names the list of components it resolves to: repeated and trailing
  separators and \<open>.\<close> do not count, \<open>..\<close> steps up, a relative path starts at the working
  directory. Symbolic links, permissions and the limits of the operating system (the
  length of a name, the space on the disk) are not part of the model, and the console
  takes every text that is printed, whatever the encoding of the terminal. Files hold
  text: of its encoding into bytes only the failure on a surrogate is part of the model
  (see \<open>emit\<close>).
\<close>

datatype msg =
    Sending_request | Request_failed | Response_received | Empty_response
  | Provider_error | Response_valid | Invalid_response | File_processing_failed
  | File_processed | Error_processing_file pyexc | Processing_file pystr
  | Processing_directory pystr | Provider_not_found pystr
  | Available_providers | Provider_entry nat json | Go_back nat
  | Enter_valid_number | Invalid_selection | Set_as_default pystr
  | Error_processing_api_keys pyexc
  | Directory_does_not_exist | Saved_duplicates | No_duplicates_found

record world =
  w_cwd :: "pystr list"
  w_dirs :: "pystr list set"
  w_files :: "pystr list \<rightharpoonup> pystr"
  w_console :: "msg list"
  w_requests :: nat

definition print :: "msg \<Rightarrow> world \<Rightarrow> world" where
  "print m w = w\<lparr>w_console := w_console w @ [m]\<rparr>"

definition path_parts :: "pystr \<Rightarrow> pystr list" where
  "path_parts p = filter (\<lambda>c. c \<noteq> []) (split_on 47 p)"

definition path_step :: "pystr list \<Rightarrow> pystr \<Rightarrow> pystr list" where
  "path_step acc c =
     (if c = str_of ''.'' then acc else if c = str_of ''..'' then butlast acc else acc @ [c])"

definition resolve :: "world \<Rightarrow> pystr \<Rightarrow> pystr list" where
  "resolve w p = foldl path_step (if p \<noteq> [] \<and> hd p = 47 then [] else w_cwd w) (path_parts p)"

definition is_dir :: "world \<Rightarrow> pystr list \<Rightarrow> bool" where
  "is_dir w cs = (cs \<in> w_dirs w \<or> prefix cs (w_cwd w))"

definition is_file :: "world \<Rightarrow> pystr list \<Rightarrow> bool" where
  "is_file w cs = (w_files w cs \<noteq> None)"

text \<open>The directory itself and the directories above it, the outermost first.\<close>

definition ancestors :: "pystr list \<Rightarrow> pystr list list" where
  "ancestors cs = map (\<lambda>k. take k cs) [1..<Suc (length cs)]"

text \<open>
  \<open>os.makedirs(name, exist_ok=True)\<close>: a file in the place of a directory above
  \<open>name\<close> stops it (\<open>NotADirectoryError\<close>), and so does a file at \<open>name\<close> itself
  (\<open>FileExistsError\<close>); otherwise every missing directory on the way is created.
\<close>

definition makedirs :: "world \<Rightarrow> pystr \<Rightarrow> pyexc + world" where
  "makedirs w name =
     (let cs = resolve w name in
      if name = [] then Inl FileNotFoundError
      else if list_ex (is_file w) (butlast (ancestors cs)) then Inl NotADirectoryError
      else if is_file w cs then Inl FileExistsError
      else Inr (w\<lparr>w_dirs := w_dirs w \<union> set (ancestors cs)\<rparr>))"

text \<open>
  \<open>with open(path, "w", encoding="utf-8") as f: json.dump(obj, f, ensure_ascii=False,
  indent=n)\<close>. When the file cannot be opened nothing changes. Opening creates the file
  or empties it; an exception while the value is dumped leaves the block, which closes
  the file with the chunks written before. The result is the exception, if any, and the
  world afterwards.
\<close>

definition write_json :: "world \<Rightarrow> pystr \<Rightarrow> nat \<Rightarrow> json \<Rightarrow> pyexc option \<times> world" where
  "write_json w path indent obj =
     (let cs = resolve w path in
      if path = [] then (Some FileNotFoundError, w)
      else if is_dir w cs then (Some IsADirectoryError, w)
      else if is_file w (butlast cs) then (Some NotADirectoryError, w)
      else if \<not> is_dir w (butlast cs) then (Some FileNotFoundError, w)
      else (case emit [] (json_chunks indent 0 obj) of
              (err, written) \<Rightarrow> (err, w\<lparr>w_files := (w_files w)(cs \<mapsto> written)\<rparr>)))"


section \<open>The reformatter\<close>

text \<open>
  The state of an \<open>AiReformatter\<close>: the active provider profile (\<open>JNull\<close> for \<open>None\<close>) and
  the API client, which is known by the key and the base URL it was built with.
\<close>

record engine =
  provider :: json
  client :: "(json \<times> json) option"

text \<open>
  What \<open>chat.completions.create\<close> comes back with. The endpoint is an external service:
  the model is given by the function \<open>ai\<close> from the number of the request to its
  outcome, so that every sequence of replies is covered. The prompt is only sent, and
  nothing of this program reads it again.
\<close>

datatype completion =
    Request_error
  | No_response
  | Error_choices
  | Choices "pystr option list"

fun is_str :: "json \<Rightarrow> bool" where
  "is_str (JStr s) = True"
| "is_str _ = False"

fun str_value :: "json \<Rightarrow> pystr" where
  "str_value (JStr s) = s"
| "str_value _ = []"

text \<open>
  \_combine\_transcript: \<open>" ".join(segment["text"] for segment in transcript)\<close>. The
  generator is run to its end first, then \<open>join\<close> wants every item to be a string.
  Iterating a dictionary or a string gives strings, which have no item \<open>"text"\<close>.
\<close>

fun segment_texts :: "json list \<Rightarrow> pyexc + json list" where
  "segment_texts [] = Inr []"
| "segment_texts (segment # rest) =
     (case subscript segment (str_of ''text'') of
        Inl e \<Rightarrow> Inl e
      | Inr t \<Rightarrow> (case segment_texts rest of Inl e \<Rightarrow> Inl e | Inr ts \<Rightarrow> Inr (t # ts)))"

definition combine_transcript :: "json \<Rightarrow> pyexc + pystr" where
  "combine_transcript transcript =
     (case transcript of
        JArr segments \<Rightarrow>
          (case segment_texts segments of
             Inl e \<Rightarrow> Inl e
           | Inr ts \<Rightarrow> if list_all is_str ts then Inr (join [32] (map str_value ts))
                       else Inl TypeError)
      | JObj kvs \<Rightarrow> if kvs = [] then Inr [] else Inl TypeError
      | JStr s \<Rightarrow> if s = [] then Inr [] else Inl TypeError
      | _ \<Rightarrow> Inl TypeError)"

text \<open>The first \<open>try\<close> block of reformat\_transcript: the request.\<close>

definition request_completion ::
  "(nat \<Rightarrow> completion) \<Rightarrow> engine \<Rightarrow> world \<Rightarrow> completion option \<times> world" where
  "request_completion ai E w =
     (case dict_get (provider E) (str_of ''model'') of
        Inl e \<Rightarrow> (None, print Request_failed w)
      | Inr model \<Rightarrow>
          (let w1 = print Sending_request w in
           case client E of
             None \<Rightarrow> (None, print Request_failed w1)
           | Some c \<Rightarrow>
               (let w2 = w1\<lparr>w_requests := Suc (w_requests w1)\<rparr> in
                case ai (w_requests w1) of
                  Request_error \<Rightarrow> (None, print Request_failed w2)
                | response \<Rightarrow> (Some response, w2))))"

text \<open>
  \<open>json_response.get("title") and json_response.get("summary") and
  json_response.get("content")\<close>
\<close>

definition response_valid :: "json \<Rightarrow> pyexc + bool" where
  "response_valid json_response =
     (case dict_get json_response (str_of ''title'') of
        Inl e \<Rightarrow> Inl e
      | Inr t \<Rightarrow>
          if \<not> truthy t then Inr False
          else (case dict_get json_response (str_of ''summary'') of
                  Inl e \<Rightarrow> Inl e
                | Inr s \<Rightarrow>
                    if \<not> truthy s then Inr False
                    else (case dict_get json_response (str_of ''content'') of
                            Inl e \<Rightarrow> Inl e
                          | Inr c \<Rightarrow> Inr (truthy c))))"

text \<open>
  The end of the second \<open>try\<close> block, from "Create directory structure" on. \<open>Inl e\<close> is
  an exception on its way to the handler of the block; the world is the one it left.
\<close>

definition save_response ::
  "unicode_db \<Rightarrow> world \<Rightarrow> json \<Rightarrow> json \<Rightarrow> (pyexc + json option) \<times> world" where
  "save_response U w input_json json_response =
     (case subscript input_json (str_of ''metadata'') of
        Inl e \<Rightarrow> (Inl e, w)
      | Inr metadata \<Rightarrow>
     (case subscript metadata (str_of ''channel_name'') of
        Inl e \<Rightarrow> (Inl e, w)
      | Inr cn \<Rightarrow>
          if \<not> is_str cn then (Inl TypeError, w)
          else
            (let channel_name = reformatter_sanitize_filename U (str_value cn);
                 output_dir = os_path_join (str_of ''processed'') channel_name
             in case makedirs w output_dir of
                  Inl e \<Rightarrow> (Inl e, w)
                | Inr w1 \<Rightarrow>
               (case subscript json_response (str_of ''title'') of
                  Inl e \<Rightarrow> (Inl e, w1)
                | Inr t \<Rightarrow>
                    if \<not> is_str t then (Inl TypeError, w1)
                    else
                      (let filename = reformatter_sanitize_filename U (str_value t) @ str_of ''.json'';
                           filepath = os_path_join output_dir filename
                       in case write_json w1 filepath 4 json_response of
                            (Some e, w2) \<Rightarrow> (Inl e, w2)
                          | (None, w2) \<Rightarrow> (Inr (Some json_response), print File_processed w2))))))"

text \<open>The second \<open>try\<close> block up to its handler.\<close>

definition handle_response ::
  "unicode_db \<Rightarrow> (pystr \<Rightarrow> json option) \<Rightarrow> world \<Rightarrow> json \<Rightarrow> completion
     \<Rightarrow> (pyexc + json option) \<times> world" where
  "handle_response U loads w input_json response =
     (case response of
        Request_error \<Rightarrow> (Inr None, w)
      | No_response \<Rightarrow> (Inr None, print Empty_response w)
      | Error_choices \<Rightarrow> (Inr None, print Provider_error w)
      | Choices choices \<Rightarrow>
          (case choices of
             [] \<Rightarrow> (Inl IndexError, w)
           | content # _ \<Rightarrow>
               (case content of
                  None \<Rightarrow> (Inl TypeError, w)
                | Some text \<Rightarrow>
                    if text = [] then (Inl TypeError, w)
                    else
                      (case loads text of
                         None \<Rightarrow> (Inl JSONDecodeError, w)
                       | Some json_response \<Rightarrow>
                           (case response_valid json_response of
                              Inl e \<Rightarrow> (Inl e, w)
                            | Inr valid \<Rightarrow>
                                if valid
                                then save_response U (print Response_valid w) input_json json_response
                                else (Inr None,
                                      print File_processing_failed (print Invalid_response w)))))))"

text \<open>
  reformat\_transcript. \<open>Inl e\<close> is an exception that leaves the function (the prompt is
  built outside the \<open>try\<close> blocks), \<open>Inr None\<close> is \<open>return None\<close>, \<open>Inr (Some r)\<close> returns the
  document. \<open>loads\<close> is \<open>json.loads\<close>, \<open>None\<close> where it raises.
\<close>

definition reformat_transcript ::
  "unicode_db \<Rightarrow> (pystr \<Rightarrow> json option) \<Rightarrow> (nat \<Rightarrow> completion) \<Rightarrow> engine \<Rightarrow> world \<Rightarrow> json
     \<Rightarrow> (pyexc + json option) \<times> world" where
  "reformat_transcript U loads ai E w input_json =
     (case subscript input_json (str_of ''transcript'') of
        Inl e \<Rightarrow> (Inl e, w)
      | Inr transcript \<Rightarrow>
     (case combine_transcript transcript of
        Inl e \<Rightarrow> (Inl e, w)
      | Inr full_text \<Rightarrow>
     (case subscript input_json (str_of ''metadata'') of
        Inl e \<Rightarrow> (Inl e, w)
      | Inr metadata \<Rightarrow>
     (case request_completion ai E w of
        (None, w1) \<Rightarrow> (Inr None, w1)
      | (Some response, w1) \<Rightarrow>
          (case handle_response U loads (print Response_received w1) input_json response of
             (Inl e, w2) \<Rightarrow> (Inr None, print (Error_processing_file e) w2)
           | (Inr r, w2) \<Rightarrow> (Inr r, w2))))))"




subsection \<open>The conditions the specification names\<close>

text \<open>
  A field of the response is there and not empty; the response has its three fields; a
  reply that does not parse or lacks one of them.
\<close>

definition field_present :: "json \<Rightarrow> pystr \<Rightarrow> bool" where
  "field_present r key =
     (case r of
        JObj kvs \<Rightarrow> (case map_of kvs key of Some v \<Rightarrow> truthy v | None \<Rightarrow> False)
      | _ \<Rightarrow> False)"

definition complete_response :: "json \<Rightarrow> bool" where
  "complete_response r =
     (field_present r (str_of ''title'') \<and> field_present r (str_of ''summary'')
      \<and> field_present r (str_of ''content''))"

definition invalid_reply :: "(pystr \<Rightarrow> json option) \<Rightarrow> pystr option \<Rightarrow> bool" where
  "invalid_reply loads content =
     (case content of
        None \<Rightarrow> True
      | Some text \<Rightarrow> (case loads text of None \<Rightarrow> True | Some r \<Rightarrow> \<not> complete_response r))"

text \<open>
  The input document lets the prompt be built (it has a transcript whose segments have
  their text, and metadata), and the engine has an active provider and a client.
\<close>

definition document_ok :: "json \<Rightarrow> bool" where
  "document_ok input_json =
     (case subscript input_json (str_of ''transcript'') of
        Inl e \<Rightarrow> False
      | Inr transcript \<Rightarrow>
          (case combine_transcript transcript of
             Inl e \<Rightarrow> False
           | Inr full_text \<Rightarrow>
               (case subscript input_json (str_of ''metadata'') of
                  Inl e \<Rightarrow> False
                | Inr metadata \<Rightarrow> True)))"



definition engine_ready :: "engine \<Rightarrow> bool" where
  "engine_ready E =
     ((case provider E of JObj kvs \<Rightarrow> True | _ \<Rightarrow> False) \<and> client E \<noteq> None)"



subsection \<open>Sample data\<close>

text \<open>A transcript document, responses, an engine and an empty disk for closed examples.\<close>

definition example_document :: json where
  "example_document =
     JObj [(str_of ''metadata'', JObj [(str_of ''channel_name'', JStr (str_of ''My: Channel''))]),
           (str_of ''transcript'', JArr [JObj [(str_of ''text'', JStr (str_of ''hi''))]])]"

definition example_response :: json where
  "example_response =
     JObj [(str_of ''title'', JStr (str_of ''A title!'')),
           (str_of ''summary'', JStr (str_of ''s'')),
           (str_of ''content'', JStr (str_of ''c''))]"

definition punctuation_response :: json where
  "punctuation_response =
     JObj [(str_of ''title'', JStr (str_of ''?!'')),
           (str_of ''summary'', JStr (str_of ''s'')),
           (str_of ''content'', JStr (str_of ''c''))]"

text \<open>A response whose title is a lone surrogate, as \<open>json.loads\<close> gives it for the
  text \<^verbatim>\<open>"\ud83d"\<close>.\<close>

definition surrogate_response :: json where
  "surrogate_response =
     JObj [(str_of ''title'', JStr [55357]),
           (str_of ''summary'', JStr (str_of ''s'')),
           (str_of ''content'', JStr (str_of ''c''))]"

definition example_engine :: engine where
  "example_engine =
     \<lparr>provider = JObj [(str_of ''api_key'', JStr (str_of ''k'')),
                       (str_of ''base_url'', JStr (str_of ''u''))],
      client = Some (JStr (str_of ''k''), JStr (str_of ''u''))\<rparr>"

definition example_world :: world where
  "example_world =
     \<lparr>w_cwd = [str_of ''home''], w_dirs = {}, w_files = Map.empty, w_console = [],
      w_requests = 0\<rparr>"

text \<open>A parser that knows a few texts: three responses, the empty dictionary and the
  example document.\<close>

definition example_loads :: "pystr \<Rightarrow> json option" where
  "example_loads s =
     (if s = str_of ''good'' then Some example_response
      else if s = str_of ''punct'' then Some punctuation_response
      else if s = str_of ''{}'' then Some (JObj [])
      else if s = str_of ''doc'' then Some example_document
      else if s = str_of ''sur'' then Some surrogate_response
      else None)"


text \<open>A credentials file with two providers, the first of them the default.\<close>

definition profile_a :: json where
  "profile_a = JObj [(str_of ''name'', JStr (str_of ''Provider A'')),
                     (str_of ''api_key'', JStr (str_of ''key-a'')),
                     (str_of ''base_url'', JStr (str_of ''https://a.example''))]"

definition profile_b :: json where
  "profile_b = JObj [(str_of ''name'', JStr (str_of ''Provider B'')),
                     (str_of ''api_key'', JStr (str_of ''key-b'')),
                     (str_of ''base_url'', JStr (str_of ''https://b.example'')),
                     (str_of ''model'', JStr (str_of ''m''))]"

definition example_providers :: "(pystr \<times> json) list" where
  "example_providers =
     [(str_of ''default'', profile_a), (str_of ''providerA'', profile_a),
      (str_of ''providerB'', profile_b)]"

definition example_credentials :: "(pystr \<times> json) list" where
  "example_credentials =
     [(str_of ''API_KEY'', JStr (str_of ''yt'')), (str_of ''ai-providers'', JObj example_providers)]"

definition idle_engine :: engine where
  "idle_engine = \<lparr>provider = JNull, client = None\<rparr>"

section \<open>The provider registry\<close>

text \<open>
  The credentials file \<open>API_KEY.json\<close> is known by what \<open>open\<close> and \<open>json.load\<close> make
  of it: the value it holds, or the exception when it is missing or no JSON. Writing a
  value with \<open>json.dump\<close> makes the file hold that value.
\<close>

text \<open>\_set\_client\<close>

definition set_client :: "engine \<Rightarrow> json \<Rightarrow> json \<Rightarrow> engine" where
  "set_client E api_key base_url = E\<lparr>client := Some (api_key, base_url)\<rparr>"

text \<open>The setter of the property \<open>provider\<close>.\<close>

definition provider_setter :: "engine \<Rightarrow> json \<Rightarrow> (pyexc + unit) \<times> engine" where
  "provider_setter E v =
     (let E1 = E\<lparr>provider := v\<rparr> in
      if truthy v then
        (case subscript v (str_of ''api_key'') of
           Inl e \<Rightarrow> (Inl e, E1)
         | Inr api_key \<Rightarrow>
             (case subscript v (str_of ''base_url'') of
                Inl e \<Rightarrow> (Inl e, E1)
              | Inr base_url \<Rightarrow> (Inr (), set_client E1 api_key base_url)))
      else (Inr (), E1))"

text \<open>
  set\_provider: what it raises or returns, the engine it leaves, and what it prints.
  After the message that the provider was not found the function goes on, and the
  subscript of the missing profile raises.
\<close>

definition set_provider ::
  "(pyexc + json) \<Rightarrow> engine \<Rightarrow> pystr \<Rightarrow> (pyexc + json) \<times> engine \<times> msg list" where
  "set_provider api_key_file E provider_name =
     (case api_key_file of
        Inl e \<Rightarrow> (Inl e, E, [])
      | Inr api_keys \<Rightarrow>
     (case subscript api_keys (str_of ''ai-providers'') of
        Inl e \<Rightarrow> (Inl e, E, [])
      | Inr providers \<Rightarrow>
     (case dict_get providers provider_name of
        Inl e \<Rightarrow> (Inl e, E, [])
      | Inr p \<Rightarrow>
          (let out = (if \<not> truthy p then [Provider_not_found provider_name] else []) in
           case subscript p (str_of ''api_key'') of
             Inl e \<Rightarrow> (Inl e, E, out)
           | Inr api_key \<Rightarrow>
          (case subscript p (str_of ''base_url'') of
             Inl e \<Rightarrow> (Inl e, E, out)
           | Inr base_url \<Rightarrow>
              (case provider_setter (set_client E api_key base_url) p of
                 (Inl e, E1) \<Rightarrow> (Inl e, E1, out)
               | (Inr u, E1) \<Rightarrow> (Inr p, E1, out)))))))"

text \<open>\<open>str.isdigit\<close> and \<open>str.lower\<close>.\<close>

definition is_digit_char :: "unicode_db \<Rightarrow> nat \<Rightarrow> bool" where
  "is_digit_char U c = (if c < 128 then 48 \<le> c \<and> c \<le> 57 else uni_isdigit U c)"

definition isdigit :: "unicode_db \<Rightarrow> pystr \<Rightarrow> bool" where
  "isdigit U s = (s \<noteq> [] \<and> list_all (is_digit_char U) s)"

definition lower :: "unicode_db \<Rightarrow> pystr \<Rightarrow> pystr" where
  "lower U s =
     (if list_all (\<lambda>c. c < 128) s then map (\<lambda>c. if 65 \<le> c \<and> c \<le> 90 then c + 32 else c) s
      else uni_lower U s)"

text \<open>The view \<open>d.keys()\<close> with the values, and the assignment \<open>d[key] = v\<close>.\<close>

fun dict_items :: "json \<Rightarrow> pyexc + (pystr \<times> json) list" where
  "dict_items (JObj kvs) = Inr kvs"
| "dict_items _ = Inl AttributeError"

fun item_assign :: "json \<Rightarrow> pystr \<Rightarrow> json \<Rightarrow> pyexc + json" where
  "item_assign (JObj kvs) key v = Inr (JObj (dict_set kvs key v))"
| "item_assign _ key v = Inl TypeError"

text \<open>The loop that prints the numbered menu; an exception keeps what was printed.\<close>

fun print_providers :: "json \<Rightarrow> pystr list \<Rightarrow> nat \<Rightarrow> pyexc option \<times> msg list" where
  "print_providers ps [] i = (None, [])"
| "print_providers ps (p # rest) i =
     (case subscript ps p of
        Inl e \<Rightarrow> (Some e, [])
      | Inr profile \<Rightarrow>
          (case subscript profile (str_of ''name'') of
             Inl e \<Rightarrow> (Some e, [])
           | Inr n \<Rightarrow>
               (case print_providers ps rest (Suc i) of
                  (r, ms) \<Rightarrow> (r, Provider_entry i n # ms))))"

text \<open>
  One round of the \<open>while True\<close> loop of select\_ai\_provider, given the next line of
  input (\<open>None\<close> at the end of the input, where \<open>input\<close> raises \<open>EOFError\<close>) and the line
  after it. The round either starts the loop again or returns, leaving the credentials
  file as given in \<open>Return\<close>. Every exception ends in the handler of the loop, which
  prints it and returns.
\<close>

datatype round = Again "msg list" | Return "pyexc + json" "msg list"

definition selection_round ::
  "unicode_db \<Rightarrow> (pyexc + json) \<Rightarrow> pystr option \<Rightarrow> pystr option \<Rightarrow> round" where
  "selection_round U api_key_file line1 line2 =
     (case api_key_file of
        Inl e \<Rightarrow> Return api_key_file [Error_processing_api_keys e]
      | Inr api_keys \<Rightarrow>
     (case subscript api_keys (str_of ''ai-providers'') of
        Inl e \<Rightarrow> Return api_key_file [Error_processing_api_keys e]
      | Inr ps \<Rightarrow>
     (case dict_items ps of
        Inl e \<Rightarrow> Return api_key_file [Error_processing_api_keys e]
      | Inr items \<Rightarrow>
          (let providers = filter (\<lambda>key. key \<noteq> str_of ''default'') (map fst items) in
           case print_providers ps providers 1 of
             (Some e, ms) \<Rightarrow>
               Return api_key_file (Available_providers # ms @ [Error_processing_api_keys e])
           | (None, ms) \<Rightarrow>
          (let out = Available_providers # ms @ [Go_back (length providers + 1)] in
           case line1 of
             None \<Rightarrow> Return api_key_file (out @ [Error_processing_api_keys EOFError])
           | Some choice \<Rightarrow>
               if \<not> isdigit U choice then Again (out @ [Enter_valid_number])
               else
                 (case py_int U choice of
                    None \<Rightarrow> Return api_key_file (out @ [Error_processing_api_keys ValueError])
                  | Some n \<Rightarrow>
                      (let choice = int n - 1 in
                       if choice = int (length providers) then Return api_key_file out
                       else if 0 \<le> choice \<and> choice < int (length providers) then
                         (let selected_provider = providers ! nat choice in
                          case line2 of
                            None \<Rightarrow>
                              Return api_key_file (out @ [Error_processing_api_keys EOFError])
                          | Some set_default \<Rightarrow>
                              if lower U set_default \<in> set [[], str_of ''y'', str_of ''yes'']
                              then
                                (case subscript ps selected_provider of
                                   Inl e \<Rightarrow>
                                     Return api_key_file (out @ [Error_processing_api_keys e])
                                 | Inr profile \<Rightarrow>
                                (case item_assign ps (str_of ''default'') profile of
                                   Inl e \<Rightarrow>
                                     Return api_key_file (out @ [Error_processing_api_keys e])
                                 | Inr ps1 \<Rightarrow>
                                (case item_assign api_keys (str_of ''ai-providers'') ps1 of
                                   Inl e \<Rightarrow>
                                     Return api_key_file (out @ [Error_processing_api_keys e])
                                 | Inr api_keys1 \<Rightarrow>
                                     Return (Inr api_keys1)
                                       (out @ [Set_as_default selected_provider]))))
                              else Return api_key_file out)
                       else Again (out @ [Invalid_selection]))))))))"

text \<open>select\_ai\_provider on the lines the operator types: the credentials file it
  leaves and what it prints.\<close>

fun select_ai_provider ::
  "unicode_db \<Rightarrow> (pyexc + json) \<Rightarrow> pystr list \<Rightarrow> (pyexc + json) \<times> msg list" where
  "select_ai_provider U api_key_file [] =
     (case selection_round U api_key_file None None of
        Again ms \<Rightarrow> (api_key_file, ms)
      | Return f ms \<Rightarrow> (f, ms))"
| "select_ai_provider U api_key_file (line # lines) =
     (case selection_round U api_key_file (Some line) (case lines of [] \<Rightarrow> None | l # _ \<Rightarrow> Some l) of
        Again ms \<Rightarrow>
          (case select_ai_provider U api_key_file lines of (f, ms1) \<Rightarrow> (f, ms @ ms1))
      | Return f ms \<Rightarrow> (f, ms))"

section \<open>Duplicate transcripts\<close>



text \<open>The chunks \<open>f.read(n)\<close> returns one after the other, up to the empty one.\<close>

fun chunks :: "nat \<Rightarrow> nat list \<Rightarrow> nat list list" where
  "chunks n bytes = (if n = 0 \<or> bytes = [] then [] else take n bytes # chunks n (drop n bytes))"

declare chunks.simps [simp del]
















section \<open>Properties of the sanitizers\<close>

lemmas char_class_defs = keeps_def is_word_def is_space_def ascii_alnum_def

lemma dropWhile_hd_id: "s \<noteq> [] \<Longrightarrow> \<not> P (hd s) \<Longrightarrow> dropWhile P s = s"
  by (cases s) simp_all

lemma strip_is_prefix: "\<exists>r. dropWhile (is_space U) s = strip U s @ r"
proof -
  let ?d = "dropWhile (is_space U) s"
  have "rev (takeWhile (is_space U) (rev ?d) @ dropWhile (is_space U) (rev ?d)) = rev (rev ?d)"
    by (simp only: takeWhile_dropWhile_id)
  then have "rev (dropWhile (is_space U) (rev ?d)) @ rev (takeWhile (is_space U) (rev ?d)) = ?d"
    by (simp only: rev_append rev_rev_ident)
  then have "?d = strip U s @ rev (takeWhile (is_space U) (rev ?d))"
    by (simp only: strip_def)
  then show ?thesis by blast
qed

lemma strip_hd: 
  assumes "strip U s \<noteq> []"
  shows "\<not> is_space U (hd (strip U s))"
proof -
  obtain r where r: "dropWhile (is_space U) s = strip U s @ r"
    using strip_is_prefix by blast
  then have "dropWhile (is_space U) s \<noteq> []" using assms by simp
  then have "\<not> is_space U (hd (dropWhile (is_space U) s))"
    by (rule hd_dropWhile)
  then show ?thesis using r assms by simp
qed

lemma strip_subset: "set (strip U s) \<subseteq> set s"
proof
  fix c assume "c \<in> set (strip U s)"
  moreover obtain r where "dropWhile (is_space U) s = strip U s @ r"
    using strip_is_prefix by blast
  ultimately have "c \<in> set (dropWhile (is_space U) s)" by simp
  then show "c \<in> set s" by (rule set_dropWhileD)
qed

lemma strip_id:
  assumes "s \<noteq> []" and "\<not> is_space U (hd s)" and "\<not> is_space U (last s)"
  shows "strip U s = s"
proof -
  have a: "dropWhile (is_space U) s = s"
    using assms by (simp add: dropWhile_hd_id)
  have "rev s \<noteq> []" and "\<not> is_space U (hd (rev s))"
    using assms by (simp_all add: hd_rev)
  then have "dropWhile (is_space U) (rev s) = rev s"
    by (rule dropWhile_hd_id)
  then show ?thesis using a by (simp add: strip_def)
qed

lemma sanitize_filename_idem:
  assumes n: "8 \<le> n" and l: "\<not> is_space U (last (sanitize_filename U s n))"
  shows "sanitize_filename U (sanitize_filename U s n) n = sanitize_filename U s n"
proof -
  let ?t = "slice_to n (strip U (filter (keeps U) s))"
  show ?thesis
  proof (cases "?t = []")
    case True
    then have r: "sanitize_filename U s n = str_of ''untitled''"
      by (simp add: sanitize_filename_def)
    have "slice_to n (str_of ''untitled'') = str_of ''untitled''"
      using n by (simp add: slice_to_def str_of_def)
    moreover have "strip U (filter (keeps U) (str_of ''untitled'')) = str_of ''untitled''"
      by (simp add: strip_def str_of_def char_class_defs)
    ultimately show ?thesis unfolding r
      by (simp add: sanitize_filename_def Let_def)
  next
    case False
    then have r: "sanitize_filename U s n = ?t"
      by (simp add: sanitize_filename_def Let_def)
    have n0: "0 \<le> n" using n by simp
    then have t: "?t = take (nat n) (strip U (filter (keeps U) s))"
      by (simp add: slice_to_def)
    have sne: "strip U (filter (keeps U) s) \<noteq> []" using False t by auto
    have "set ?t \<subseteq> set (filter (keeps U) s)"
      unfolding t using strip_subset set_take_subset by fast
    then have f: "filter (keeps U) ?t = ?t"
      by (intro filter_True) auto
    have "hd ?t = hd (strip U (filter (keeps U) s))"
      using False unfolding t by (cases "nat n") (simp_all add: hd_take)
    then have h: "\<not> is_space U (hd ?t)" using strip_hd[OF sne] by simp
    have st: "strip U ?t = ?t" using strip_id[OF False h] l r by simp
    have "length ?t \<le> nat n" unfolding t by simp
    then have "slice_to n ?t = ?t" using n0 by (simp add: slice_to_def)
    then show ?thesis unfolding r using f st False by (simp add: sanitize_filename_def Let_def)
  qed
qed

lemma hello_world_reformatter:
  "reformatter_sanitize_filename U (str_of ''Hello, World! (2024)'') = str_of ''Hello World 2024''"
  by (simp add: reformatter_sanitize_filename_def str_of_def char_class_defs)

lemma hello_world_downloader:
  "sanitize_filename U (str_of ''Hello, World! (2024)'') TRANSCRIPT_FILENAME_LENGTH
     = str_of ''Hello World 2024''"
  by (simp add: sanitize_filename_def TRANSCRIPT_FILENAME_LENGTH_def strip_def slice_to_def
      str_of_def char_class_defs)

text \<open>
  C3, as the code has it. The sanitizer of the reformatter is idempotent on every
  string. The sanitizer of the downloader strips before it truncates, so the cut can
  leave whitespace at the end, which a second application strips: it is idempotent on
  every name whose sanitized form does not end in whitespace, for a maximum length of
  at least 8, the length of \<open>untitled\<close> (the default is 36). Both map
  \<open>Hello, World! (2024)\<close> to \<open>Hello World 2024\<close>.
\<close>

theorem sanitize_idempotent:
  "reformatter_sanitize_filename U (reformatter_sanitize_filename U s)
     = reformatter_sanitize_filename U s
   \<and> reformatter_sanitize_filename U (str_of ''Hello, World! (2024)'') = str_of ''Hello World 2024''
   \<and> sanitize_filename U (str_of ''Hello, World! (2024)'') TRANSCRIPT_FILENAME_LENGTH
       = str_of ''Hello World 2024''
   \<and> (8 \<le> n \<and> \<not> is_space U (last (sanitize_filename U t n))
        \<longrightarrow> sanitize_filename U (sanitize_filename U t n) n = sanitize_filename U t n)"
  using sanitize_filename_idem [of n U t]
  by (simp add: hello_world_reformatter hello_world_downloader)
     (simp add: reformatter_sanitize_filename_def)

theorem sanitize_idempotent_witness:
  "(8::int) \<le> 36
   \<and> \<not> is_space ascii_db (last (sanitize_filename ascii_db (str_of ''Hello, World! (2024)'') 36))
   \<and> sanitize_filename ascii_db (sanitize_filename ascii_db (str_of ''Hello, World! (2024)'') 36) 36
       = str_of ''Hello World 2024''"
proof -
  have a: "sanitize_filename ascii_db (str_of ''Hello, World! (2024)'') 36 = str_of ''Hello World 2024''"
    using hello_world_downloader [of ascii_db] by (simp add: TRANSCRIPT_FILENAME_LENGTH_def)
  have b: "\<not> is_space ascii_db (last (str_of ''Hello World 2024''))"
    by (simp add: str_of_def is_space_def)
  show ?thesis
    using sanitize_idempotent [of ascii_db "[]" 36 "str_of ''Hello, World! (2024)''"] b
    unfolding a by simp
qed

text \<open>
  C3 as stated fails for the downloader with its default length: the 36th character of
  the title below is a blank, the first application returns 36 characters ending in
  it, the second returns 35.
\<close>

theorem sanitize_filename_not_idempotent:
  "sanitize_filename ascii_db
     (sanitize_filename ascii_db (str_of ''Python Tutorials for Beginners Part 1'')
        TRANSCRIPT_FILENAME_LENGTH) TRANSCRIPT_FILENAME_LENGTH
   \<noteq> sanitize_filename ascii_db (str_of ''Python Tutorials for Beginners Part 1'')
        TRANSCRIPT_FILENAME_LENGTH"
  by code_simp

section \<open>Properties of format\_duration\<close>

lemma takeWhile_run: "list_all P ds \<Longrightarrow> \<not> P x \<Longrightarrow> takeWhile P (ds @ x # r) = ds"
  by (induction ds) auto

lemma dropWhile_run: "list_all P ds \<Longrightarrow> \<not> P x \<Longrightarrow> dropWhile P (ds @ x # r) = x # r"
  by (induction ds) auto

lemma letters_not_decimal: "\<not> is_decimal U 72" "\<not> is_decimal U 77" "\<not> is_decimal U 83"
  by (simp_all add: is_decimal_def decimal_value_def)

lemma opt_group_hit:
  "digit_string U ds \<Longrightarrow> \<not> is_decimal U l \<Longrightarrow> opt_group U l (ds @ l # r) = (Some ds, r)"
  by (simp add: opt_group_def digit_string_def takeWhile_run dropWhile_run)

lemma opt_group_other_letter:
  "digit_string U ds \<Longrightarrow> \<not> is_decimal U x \<Longrightarrow> x \<noteq> l
     \<Longrightarrow> opt_group U l (ds @ x # r) = (None, ds @ x # r)"
  by (simp add: opt_group_def digit_string_def takeWhile_run dropWhile_run)

lemma opt_group_nil: "opt_group U l [] = (None, [])"
  by (simp add: opt_group_def)

text \<open>On a text of the shape the match returns the components the text was built from.\<close>

lemma iso_match_text:
  assumes "component_ok U h" "component_ok U m" "component_ok U sec"
  shows "iso_duration_match U (iso_text h m sec) = Some (h, m, sec)"
  using assms
  by (cases h; cases m; cases sec)
     (simp_all add: iso_duration_match_def iso_text_def iso_component_def component_ok_def
        str_of_def opt_group_hit opt_group_other_letter opt_group_nil letters_not_decimal)

lemma format_duration_text:
  assumes "component_ok U h" "component_ok U m" "component_ok U sec"
  shows "format_duration U (iso_text h m sec)
           = (case group_value U h of
                Inl e \<Rightarrow> Inl e
              | Inr hv \<Rightarrow>
                  (case group_value U m of
                     Inl e \<Rightarrow> Inl e
                   | Inr mv \<Rightarrow> Inr (format_02 hv @ [58] @ format_02 mv)))"
  by (simp add: format_duration_def iso_match_text [OF assms])

lemma format_duration_no_match:
  "\<not> prefix (str_of ''PT'') s \<Longrightarrow> format_duration U s = Inr (str_of ''00:00'')"
  by (simp add: format_duration_def iso_duration_match_def)

lemma iso_text_last: "last (iso_text h m sec) \<in> {84, 72, 77, 83}"
  by (cases h; cases m; cases sec) (simp_all add: iso_text_def iso_component_def str_of_def)

subsection \<open>What \<open>int\<close> gives on a component\<close>

lemma group_value_fits:
  "component_ok U g \<Longrightarrow> component_fits g \<Longrightarrow> group_value U g = Inr (component_value U g)"
  by (cases g)
     (simp_all add: group_value_def component_ok_def component_fits_def component_value_def
        digit_string_def py_int_def)

lemma group_value_long:
  "component_ok U g \<Longrightarrow> \<not> component_fits g \<Longrightarrow> group_value U g = Inl ValueError"
  by (cases g)
     (simp_all add: group_value_def component_ok_def component_fits_def digit_string_def
        py_int_def)

lemma group_value_total:
  "component_ok U g \<Longrightarrow> group_value U g = Inl ValueError \<or> (\<exists>n. group_value U g = Inr n)"
  using group_value_fits [of U g] group_value_long [of U g] by blast

subsection \<open>Decimal numerals\<close>

lemma str_nat_digits: "list_all (\<lambda>c. 48 \<le> c \<and> c \<le> 57) (str_nat n)"
proof (induction n rule: str_nat.induct)
  case (1 n)
  show ?case
  proof (cases "n < 10")
    case True
    then show ?thesis by (subst str_nat.simps) simp
  next
    case False
    then have "list_all (\<lambda>c. 48 \<le> c \<and> c \<le> 57) (str_nat (n div 10))" by (rule 1)
    moreover have "n mod 10 < 10" by simp
    ultimately show ?thesis using False by (subst str_nat.simps) simp
  qed
qed

lemma str_nat_nonempty: "str_nat n \<noteq> []"
  by (subst str_nat.simps) simp

lemma ascii_digit_decimal: "48 \<le> c \<Longrightarrow> c \<le> 57 \<Longrightarrow> decimal_value U c = Some (c - 48)"
  by (simp add: decimal_value_def)

lemma str_nat_digit_string: "digit_string U (str_nat n)"
proof -
  have "list_all (is_decimal U) xs" if "list_all (\<lambda>c. 48 \<le> c \<and> c \<le> 57) xs" for xs
    using that by (induction xs) (simp_all add: is_decimal_def ascii_digit_decimal)
  then show ?thesis
    using str_nat_digits [of n] str_nat_nonempty [of n] by (simp add: digit_string_def)
qed

lemma digits_value_snoc:
  "digits_value U (ds @ [c])
     = 10 * digits_value U ds + (case decimal_value U c of Some v \<Rightarrow> v | None \<Rightarrow> 0)"
  by (simp add: digits_value_def)

lemma digits_value_str_nat: "digits_value U (str_nat n) = n"
proof (induction n rule: str_nat.induct)
  case (1 n)
  show ?case
  proof (cases "n < 10")
    case True
    then have "str_nat n = [48 + n]" by (subst str_nat.simps) simp
    then show ?thesis using True by (simp add: digits_value_def ascii_digit_decimal)
  next
    case False
    then have ih: "digits_value U (str_nat (n div 10)) = n div 10" by (rule 1)
    have s: "str_nat n = str_nat (n div 10) @ [48 + n mod 10]"
      using False by (subst str_nat.simps) simp
    have "n mod 10 < 10" by simp
    then have d: "decimal_value U (48 + n mod 10) = Some (n mod 10)"
      by (simp add: ascii_digit_decimal)
    show ?thesis unfolding s digits_value_snoc ih d by simp
  qed
qed

lemma number_component_ok: "component_ok U (number_component k)"
  by (cases k) (simp_all add: component_ok_def number_component_def str_nat_digit_string)

lemma number_component_value: "component_value U (number_component k) = number_value k"
  by (cases k)
     (simp_all add: component_value_def number_component_def number_value_def
        digits_value_str_nat)

lemma str_nat_length2: "10 \<le> n \<Longrightarrow> 2 \<le> length (str_nat n)"
  by (subst str_nat.simps) (simp, subst str_nat.simps, simp)

lemma str_nat_length3: "100 \<le> n \<Longrightarrow> 3 \<le> length (str_nat n)"
proof -
  assume a: "100 \<le> n"
  then have "10 \<le> n div 10" by simp
  then have "2 \<le> length (str_nat (n div 10))" by (rule str_nat_length2)
  then show ?thesis using a by (subst str_nat.simps) simp
qed

lemma format_02_large: "10 \<le> n \<Longrightarrow> format_02 n = str_nat n"
  using str_nat_length2 [of n] by (simp add: format_02_def)

lemma format_02_length: "2 \<le> length (format_02 n)"
  by (simp add: format_02_def)

lemma format_duration_fits:
  assumes "component_ok U h" "component_ok U m" "component_ok U sec"
    and "component_fits h" "component_fits m"
  shows "format_duration U (iso_text h m sec)
           = Inr (format_02 (component_value U h) @ [58] @ format_02 (component_value U m))"
  by (simp add: format_duration_text [OF assms(1,2,3)] group_value_fits assms)

lemma format_duration_long:
  assumes "component_ok U h" "component_ok U m" "component_ok U sec"
    and "\<not> (component_fits h \<and> component_fits m)"
  shows "format_duration U (iso_text h m sec) = Inl ValueError"
proof (cases "component_fits h")
  case False
  then show ?thesis
    by (simp add: format_duration_text [OF assms(1,2,3)] group_value_long assms)
next
  case True
  then have "\<not> component_fits m" using assms(4) by simp
  then show ?thesis
    using True by (simp add: format_duration_text [OF assms(1,2,3)] group_value_long
        group_value_fits assms)
qed

lemma format_duration_numbers:
  assumes "component_fits (number_component hh)" "component_fits (number_component mm)"
    and "component_ok U sec"
  shows "format_duration U (iso_text (number_component hh) (number_component mm) sec)
           = Inr (format_02 (number_value hh) @ [58] @ format_02 (number_value mm))"
  using format_duration_fits [OF number_component_ok number_component_ok assms(3) assms(1,2)]
  by (simp add: number_component_value)

lemma format_duration_seconds:
  assumes "component_ok U h" "component_ok U m" "component_ok U sec"
  shows "format_duration U (iso_text h m sec) = format_duration U (iso_text h m None)"
proof -
  have "component_ok U None" by (simp add: component_ok_def)
  from format_duration_text [OF assms] format_duration_text [OF assms(1,2) this]
  show ?thesis by simp
qed

lemmas duration_eval_defs =
  format_duration_def iso_duration_match_def opt_group_def str_of_def is_decimal_def
  decimal_value_def group_value_def py_int_def int_max_str_digits_def digits_value_def
  format_02_def str_nat.simps

text \<open>
  C5, as the code has it. \<open>PT1H2M3S\<close> gives \<open>01:02\<close> and \<open>PT45S\<close> gives \<open>00:00\<close>. The
  pattern is matched at the start of the string and nothing is asked of what follows the
  match: every string that does not begin with \<open>PT\<close> gives \<open>00:00\<close>. On a duration of
  the shape \<open>PT#H#M#S\<close> (every component optional) a seconds component never changes
  what format\_duration does. When the hours and the minutes have no more digits than
  \<open>int\<close> converts, the result is the hours and the minutes, each padded to two digits:
  for components that are decimal numerals, the numbers themselves. When one of the two
  has more digits, \<open>int\<close> raises \<open>ValueError\<close> and so does format\_duration.
\<close>

theorem format_duration_truncates:
  "format_duration U (str_of ''PT1H2M3S'') = Inr (str_of ''01:02'')
   \<and> format_duration U (str_of ''PT45S'') = Inr (str_of ''00:00'')
   \<and> (\<not> prefix (str_of ''PT'') s \<longrightarrow> format_duration U s = Inr (str_of ''00:00''))
   \<and> (component_ok U h \<and> component_ok U m \<and> component_ok U sec \<longrightarrow>
        format_duration U (iso_text h m sec) = format_duration U (iso_text h m None))
   \<and> (component_ok U h \<and> component_ok U m \<and> component_ok U sec
       \<and> component_fits h \<and> component_fits m \<longrightarrow>
        format_duration U (iso_text h m sec)
          = Inr (format_02 (component_value U h) @ [58] @ format_02 (component_value U m)))
   \<and> (component_fits (number_component hh) \<and> component_fits (number_component mm)
       \<and> component_ok U sec \<longrightarrow>
        format_duration U (iso_text (number_component hh) (number_component mm) sec)
          = Inr (format_02 (number_value hh) @ [58] @ format_02 (number_value mm)))
   \<and> (component_ok U a \<and> component_ok U b \<and> component_ok U c
       \<and> \<not> (component_fits a \<and> component_fits b) \<longrightarrow>
        format_duration U (iso_text a b c) = Inl ValueError)"
proof -
  have a: "format_duration U (str_of ''PT1H2M3S'') = Inr (str_of ''01:02'')"
    by (simp add: duration_eval_defs)
  have b: "format_duration U (str_of ''PT45S'') = Inr (str_of ''00:00'')"
    by (simp add: duration_eval_defs)
  show ?thesis
    using a b format_duration_no_match [of s U] format_duration_seconds [of U h m sec]
      format_duration_fits [of U h m sec] format_duration_numbers [of hh mm U sec]
      format_duration_long [of U a b c]
    by blast
qed

lemma sample_components:
  "component_ok ascii_db (Some (str_of ''01''))" "component_ok ascii_db (Some (str_of ''2''))"
  "component_ok ascii_db (Some (str_of ''59''))" "component_ok ascii_db None"
  "component_fits (Some (str_of ''01''))" "component_fits (Some (str_of ''2''))"
  "component_fits None"
  by (simp_all add: component_ok_def component_fits_def digit_string_def is_decimal_def
        decimal_value_def int_max_str_digits_def str_of_def)

lemma long_component:
  "component_ok U (Some (replicate 4301 49))" "\<not> component_fits (Some (replicate 4301 49))"
  by (simp_all add: component_ok_def component_fits_def digit_string_def is_decimal_def
        decimal_value_def int_max_str_digits_def list_all_iff)

lemma sample_numbers:
  "number_component (Some 7) = Some (str_of ''7'')" "number_component None = None"
  "number_component (Some 2) = Some (str_of ''2'')"
  "str_nat 135 = str_of ''135''" "str_nat 75 = str_of ''75''"
  "number_value (Some 7) = 7" "number_value None = 0" "number_value (Some 2) = 2"
  by (simp_all add: number_component_def number_value_def str_nat.simps str_of_def)

lemma sample_texts:
  "iso_text (Some (str_of ''01'')) (Some (str_of ''2'')) (Some (str_of ''59'')) = str_of ''PT01H2M59S''"
  "iso_text (Some (str_of ''01'')) (Some (str_of ''2'')) None = str_of ''PT01H2M''"
  "iso_text (Some (str_of ''7'')) None (Some (str_of ''59'')) = str_of ''PT7H59S''"
  "iso_text None (Some (str_of ''135'')) None = str_of ''PT135M''"
  "iso_text (Some (str_of ''2'')) (Some (str_of ''75'')) (Some (str_of ''59'')) = str_of ''PT2H75M59S''"
  by (simp_all add: iso_text_def iso_component_def str_of_def)

lemma sample_fields:
  "format_02 (component_value ascii_db (Some (str_of ''01''))) @ [58]
     @ format_02 (component_value ascii_db (Some (str_of ''2''))) = str_of ''01:02''"
  "format_02 7 @ [58] @ format_02 0 = str_of ''07:00''"
  "format_02 0 @ [58] @ str_of ''135'' = str_of ''00:135''"
  "format_02 2 @ [58] @ str_of ''75'' = str_of ''02:75''"
  by (simp_all add: component_value_def digits_value_def decimal_value_def format_02_def
        str_nat.simps str_of_def)

theorem format_duration_truncates_witness:
  "\<not> prefix (str_of ''PT'') (str_of ''P1DT2H'')
   \<and> format_duration ascii_db (str_of ''P1DT2H'') = Inr (str_of ''00:00'')
   \<and> component_ok ascii_db (Some (str_of ''01'')) \<and> component_ok ascii_db (Some (str_of ''2''))
   \<and> component_ok ascii_db (Some (str_of ''59''))
   \<and> component_fits (Some (str_of ''01'')) \<and> component_fits (Some (str_of ''2''))
   \<and> format_duration ascii_db (str_of ''PT01H2M59S'') = format_duration ascii_db (str_of ''PT01H2M'')
   \<and> format_duration ascii_db (str_of ''PT01H2M59S'') = Inr (str_of ''01:02'')
   \<and> component_fits (number_component (Some 7)) \<and> component_fits (number_component None)
   \<and> format_duration ascii_db (str_of ''PT7H59S'') = Inr (str_of ''07:00'')
   \<and> component_ok ascii_db (Some (replicate 4301 49)) \<and> component_ok ascii_db None
   \<and> \<not> (component_fits (Some (replicate 4301 49)) \<and> component_fits None)
   \<and> format_duration ascii_db (iso_text (Some (replicate 4301 49)) None None) = Inl ValueError"
proof -
  note th = format_duration_truncates [where U = ascii_db and s = "str_of ''P1DT2H''"
      and h = "Some (str_of ''01'')" and m = "Some (str_of ''2'')" and sec = "Some (str_of ''59'')"
      and hh = "Some 7" and mm = None
      and a = "Some (replicate 4301 49)" and b = None and c = None]
  note th3 = th [THEN conjunct2, THEN conjunct2, THEN conjunct1]
  note th4 = th [THEN conjunct2, THEN conjunct2, THEN conjunct2, THEN conjunct1]
  note th5 = th [THEN conjunct2, THEN conjunct2, THEN conjunct2, THEN conjunct2, THEN conjunct1]
  note th6 = th [THEN conjunct2, THEN conjunct2, THEN conjunct2, THEN conjunct2, THEN conjunct2,
      THEN conjunct1]
  note th7 = th [THEN conjunct2, THEN conjunct2, THEN conjunct2, THEN conjunct2, THEN conjunct2,
      THEN conjunct2]
  have p: "\<not> prefix (str_of ''PT'') (str_of ''P1DT2H'')"
    by (simp add: str_of_def)
  have 1: "format_duration ascii_db (str_of ''P1DT2H'') = Inr (str_of ''00:00'')"
    by (rule th3 [THEN mp]) (rule p)
  have 2: "format_duration ascii_db (str_of ''PT01H2M59S'') = format_duration ascii_db (str_of ''PT01H2M'')"
    using th4 [THEN mp, OF conjI [OF sample_components(1) conjI [OF sample_components(2,3)]]]
    unfolding sample_texts .
  have "format_duration ascii_db (iso_text (Some (str_of ''01'')) (Some (str_of ''2'')) (Some (str_of ''59'')))
      = Inr (format_02 (component_value ascii_db (Some (str_of ''01''))) @ [58]
             @ format_02 (component_value ascii_db (Some (str_of ''2''))))"
    by (rule th5 [THEN mp]) (intro conjI sample_components)
  then have 3: "format_duration ascii_db (str_of ''PT01H2M59S'') = Inr (str_of ''01:02'')"
    unfolding sample_texts sample_fields .
  have f: "component_fits (number_component (Some 7))" "component_fits (number_component None)"
    by (simp_all add: sample_numbers component_fits_def int_max_str_digits_def str_of_def)
  have "format_duration ascii_db (iso_text (number_component (Some 7)) (number_component None) (Some (str_of ''59'')))
      = Inr (format_02 (number_value (Some 7)) @ [58] @ format_02 (number_value None))"
    by (rule th6 [THEN mp]) (intro conjI f sample_components)
  then have 4: "format_duration ascii_db (str_of ''PT7H59S'') = Inr (str_of ''07:00'')"
    unfolding sample_numbers sample_texts sample_fields .
  have n: "\<not> (component_fits (Some (replicate 4301 49)) \<and> component_fits None)"
    using long_component(2) by simp
  have 5: "format_duration ascii_db (iso_text (Some (replicate 4301 49)) None None) = Inl ValueError"
    by (rule th7 [THEN mp]) (intro conjI long_component sample_components n)
  show ?thesis
    by (intro conjI p 1 sample_components(1,2,3,5,6) 2 3 f 4 long_component(1)
          sample_components(4) n 5)
qed

text \<open>
  C5 as stated fails: \<open>PT1H2Mxyz\<close> is not of the shape \<open>PT#H#M#S\<close>, and the result is
  \<open>01:02\<close>, not \<open>00:00\<close>.
\<close>

theorem format_duration_malformed_counterexample:
  "\<not> iso_shape ascii_db (str_of ''PT1H2Mxyz'')
   \<and> format_duration ascii_db (str_of ''PT1H2Mxyz'') = Inr (str_of ''01:02'')"
proof -
  have "last (str_of ''PT1H2Mxyz'') = 122"
    by (simp add: str_of_def)
  then have "str_of ''PT1H2Mxyz'' \<noteq> iso_text h m sec" for h m sec
    using iso_text_last [of h m sec] by auto
  then have "\<not> iso_shape ascii_db (str_of ''PT1H2Mxyz'')"
    by (simp add: iso_shape_def)
  moreover have "format_duration ascii_db (str_of ''PT1H2Mxyz'') = Inr (str_of ''01:02'')"
    by (simp add: duration_eval_defs)
  ultimately show ?thesis by simp
qed

text \<open>
  C9. \<open>PT135M\<close> gives \<open>00:135\<close>. On every duration of the shape whose minutes are the
  decimal numeral of a number from 60 on, of no more digits than \<open>int\<close> converts, the
  minute field of the result is that numeral as it stands, and the hour field is the
  two-digit hours of the duration: nothing is carried. From 100 minutes on the result
  is longer than the five characters of \<open>hh:mm\<close>.
\<close>

theorem format_duration_no_carry:
  "format_duration U (str_of ''PT135M'') = Inr (str_of ''00:135'')
   \<and> (60 \<le> n \<and> length (str_nat n) \<le> int_max_str_digits
       \<and> component_fits (number_component hh) \<and> component_ok U sec \<longrightarrow>
        format_duration U (iso_text (number_component hh) (Some (str_nat n)) sec)
          = Inr (format_02 (number_value hh) @ [58] @ str_nat n))
   \<and> (100 \<le> n \<and> length (str_nat n) \<le> int_max_str_digits
       \<and> component_fits (number_component hh) \<and> component_ok U sec \<longrightarrow>
        (\<exists>out. format_duration U (iso_text (number_component hh) (Some (str_nat n)) sec) = Inr out
           \<and> 5 < length out))"
proof -
  have a: "format_duration U (str_of ''PT135M'') = Inr (str_of ''00:135'')"
    by (simp add: duration_eval_defs)
  have b: "format_duration U (iso_text (number_component hh) (Some (str_nat n)) sec)
             = Inr (format_02 (number_value hh) @ [58] @ str_nat n)"
    if "10 \<le> n" "length (str_nat n) \<le> int_max_str_digits"
      "component_fits (number_component hh)" "component_ok U sec"
  proof -
    have "component_fits (number_component (Some n))"
      using that(2) by (simp add: component_fits_def number_component_def)
    from format_duration_numbers [OF that(3) this that(4)] show ?thesis
      using that(1) by (simp add: number_component_def number_value_def format_02_large)
  qed
  have c: "\<exists>out. format_duration U (iso_text (number_component hh) (Some (str_nat n)) sec) = Inr out
           \<and> 5 < length out"
    if "100 \<le> n" "length (str_nat n) \<le> int_max_str_digits"
      "component_fits (number_component hh)" "component_ok U sec"
  proof -
    have "10 \<le> n" using that(1) by simp
    note r = b [OF this that(2,3,4)]
    have "5 < length (format_02 (number_value hh) @ [58] @ str_nat n)"
      using str_nat_length3 [OF that(1)] format_02_length [of "number_value hh"] by simp
    then show ?thesis using r by blast
  qed
  have b': "format_duration U (iso_text (number_component hh) (Some (str_nat n)) sec)
             = Inr (format_02 (number_value hh) @ [58] @ str_nat n)"
    if "60 \<le> n" "length (str_nat n) \<le> int_max_str_digits"
      "component_fits (number_component hh)" "component_ok U sec"
  proof -
    have "10 \<le> n" using that(1) by simp
    then show ?thesis using that(2,3,4) by (rule b)
  qed
  show ?thesis using a b' c by blast
qed

theorem format_duration_no_carry_witness:
  "(100 :: nat) \<le> 135 \<and> length (str_nat 135) \<le> int_max_str_digits
   \<and> component_fits (number_component None) \<and> component_ok ascii_db None
   \<and> format_duration ascii_db (str_of ''PT135M'') = Inr (str_of ''00:135'')
   \<and> (\<exists>out. format_duration ascii_db (str_of ''PT135M'') = Inr out \<and> 5 < length out)
   \<and> (60 :: nat) \<le> 75 \<and> length (str_nat 75) \<le> int_max_str_digits
   \<and> component_fits (number_component (Some 2)) \<and> component_ok ascii_db (Some (str_of ''59''))
   \<and> format_duration ascii_db (str_of ''PT2H75M59S'') = Inr (str_of ''02:75'')"
proof -
  note th = format_duration_no_carry [where U = ascii_db and n = 135 and hh = None and sec = None]
  note th' = format_duration_no_carry [where U = ascii_db and n = 75 and hh = "Some 2"
      and sec = "Some (str_of ''59'')"]
  have l: "length (str_nat 135) \<le> int_max_str_digits" "length (str_nat 75) \<le> int_max_str_digits"
    by (simp_all add: sample_numbers int_max_str_digits_def str_of_def)
  have f: "component_fits (number_component None)" "component_fits (number_component (Some 2))"
    by (simp_all add: sample_numbers component_fits_def int_max_str_digits_def str_of_def)
  have n: "(100 :: nat) \<le> 135" "(60 :: nat) \<le> 135" "(60 :: nat) \<le> 75" by simp_all
  have "format_duration ascii_db (iso_text (number_component None) (Some (str_nat 135)) None)
      = Inr (format_02 (number_value None) @ [58] @ str_nat 135)"
    by (rule th [THEN conjunct2, THEN conjunct1, THEN mp])
       (intro conjI n(2) l(1) f(1) sample_components(4))
  then have 1: "format_duration ascii_db (str_of ''PT135M'') = Inr (str_of ''00:135'')"
    unfolding sample_numbers sample_texts sample_fields .
  have "\<exists>out. format_duration ascii_db (iso_text (number_component None) (Some (str_nat 135)) None)
            = Inr out \<and> 5 < length out"
    by (rule th [THEN conjunct2, THEN conjunct2, THEN mp])
       (intro conjI n(1) l(1) f(1) sample_components(4))
  then have 2: "\<exists>out. format_duration ascii_db (str_of ''PT135M'') = Inr out \<and> 5 < length out"
    unfolding sample_numbers sample_texts .
  have "format_duration ascii_db (iso_text (number_component (Some 2)) (Some (str_nat 75)) (Some (str_of ''59'')))
      = Inr (format_02 (number_value (Some 2)) @ [58] @ str_nat 75)"
    by (rule th' [THEN conjunct2, THEN conjunct1, THEN mp])
       (intro conjI n(3) l(2) f(2) sample_components(3))
  then have 3: "format_duration ascii_db (str_of ''PT2H75M59S'') = Inr (str_of ''02:75'')"
    unfolding sample_numbers sample_texts sample_fields .
  show ?thesis
    by (intro conjI n(1) l(1) f(1) sample_components(4) 1 2 n(3) l(2) f(2) sample_components(3) 3)
qed

section \<open>Properties of the serialization\<close>















section \<open>Properties of the reformatter\<close>

subsection \<open>Paths\<close>
















subsection \<open>Requests and replies\<close>


lemma response_valid_incomplete:
  "\<not> complete_response r \<Longrightarrow> response_valid r = Inl AttributeError \<or> response_valid r = Inr False"
  by (cases r) (auto simp: complete_response_def field_present_def response_valid_def split: option.splits)

lemma handle_invalid:
  assumes "invalid_reply loads answer"
  shows "(\<exists>e. handle_response U loads w doc (Choices (answer # others)) = (Inl e, w))
       \<or> handle_response U loads w doc (Choices (answer # others))
           = (Inr None, print File_processing_failed (print Invalid_response w))"
proof (cases answer)
  case None
  then show ?thesis by (simp add: handle_response_def)
next
  case (Some body)
  show ?thesis
  proof (cases "body = []")
    case True
    then show ?thesis using Some by (simp add: handle_response_def)
  next
    case False
    show ?thesis
    proof (cases "loads body")
      case None
      then show ?thesis using Some False by (simp add: handle_response_def)
    next
      case (Some r)
      then have "\<not> complete_response r"
        using assms \<open>answer = Some body\<close> by (simp add: invalid_reply_def)
      then show ?thesis
        using response_valid_incomplete [of r] Some False \<open>answer = Some body\<close>
        by (auto simp: handle_response_def)
    qed
  qed
qed

lemma request_completion_frame:
  "request_completion ai E w = (r, w1) \<Longrightarrow> w_files w1 = w_files w \<and> w_dirs w1 = w_dirs w \<and> w_cwd w1 = w_cwd w"
  by (auto simp: request_completion_def print_def Let_def split: sum.splits option.splits completion.splits)

lemma request_completion_ready:
  "engine_ready E \<Longrightarrow> ai (w_requests w) = Choices cs \<Longrightarrow>
   request_completion ai E w = (Some (Choices cs), (print Sending_request w)\<lparr>w_requests := Suc (w_requests w)\<rparr>)"
  by (cases "provider E") (auto simp: request_completion_def engine_ready_def print_def Let_def split: option.splits)

lemma request_completion_some:
  "request_completion ai E w = (Some c, w1) \<Longrightarrow> c = ai (w_requests w)"
  by (auto simp: request_completion_def print_def Let_def split: sum.splits option.splits completion.splits)

subsection \<open>Saving a valid response\<close>








subsection \<open>reformat\_transcript on a valid and on an invalid reply\<close>

lemma document_okD:
  "document_ok doc \<Longrightarrow>
   \<exists>tr ft md. subscript doc (str_of ''transcript'') = Inr tr \<and> combine_transcript tr = Inr ft
      \<and> subscript doc (str_of ''metadata'') = Inr md"
  by (auto simp: document_ok_def split: sum.splits)

lemma print_frame [simp]:
  "w_files (print m w) = w_files w" "w_dirs (print m w) = w_dirs w" "w_cwd (print m w) = w_cwd w"
  "w_requests (print m w) = w_requests w" "w_console (print m w) = w_console w @ [m]"
  by (simp_all add: print_def)




lemma reformat_transcript_rejects:
  assumes ai: "ai (w_requests w) = Choices (c # others)" and bad: "invalid_reply loads c"
  shows "(\<forall>r. fst (reformat_transcript U loads ai E w doc) \<noteq> Inr (Some r))
    \<and> w_files (snd (reformat_transcript U loads ai E w doc)) = w_files w
    \<and> w_dirs (snd (reformat_transcript U loads ai E w doc)) = w_dirs w"
proof (cases "subscript doc (str_of ''transcript'')")
  case (Inl e)
  then show ?thesis by (simp add: reformat_transcript_def)
next
  case tr: (Inr tr)
  show ?thesis
  proof (cases "combine_transcript tr")
    case (Inl e)
    then show ?thesis by (simp add: reformat_transcript_def tr)
  next
    case ft: (Inr ft)
    show ?thesis
    proof (cases "subscript doc (str_of ''metadata'')")
      case (Inl e)
      then show ?thesis by (simp add: reformat_transcript_def tr ft)
    next
      case md: (Inr md)
      obtain resp w1 where rc: "request_completion ai E w = (resp, w1)"
        by (cases "request_completion ai E w")
      note fr = request_completion_frame [OF rc]
      show ?thesis
      proof (cases resp)
        case None
        then show ?thesis using fr
          by (simp add: reformat_transcript_def tr ft md rc)
      next
        case (Some x)
        then have x: "x = Choices (c # others)"
          using request_completion_some [of ai E w x w1] rc ai by simp
        from handle_invalid [OF bad, of U "print Response_received w1" doc others]
        show ?thesis
        proof
          assume "\<exists>e. handle_response U loads (print Response_received w1) doc (Choices (c # others))
            = (Inl e, print Response_received w1)"
          then obtain e where "handle_response U loads (print Response_received w1) doc (Choices (c # others))
            = (Inl e, print Response_received w1)" by blast
          then show ?thesis using fr
            by (simp add: reformat_transcript_def tr ft md rc Some x)
        next
          assume "handle_response U loads (print Response_received w1) doc (Choices (c # others))
            = (Inr None, print File_processing_failed (print Invalid_response (print Response_received w1)))"
          then show ?thesis using fr
            by (simp add: reformat_transcript_def tr ft md rc Some x)
        qed
      qed
    qed
  qed
qed

lemma reformat_transcript_rejects_report:
  assumes ai: "ai (w_requests w) = Choices (c # others)" and bad: "invalid_reply loads c"
    and doc: "document_ok doc" and E: "engine_ready E"
  shows "fst (reformat_transcript U loads ai E w doc) = Inr None
    \<and> ((\<exists>e. w_console (snd (reformat_transcript U loads ai E w doc))
              = w_console w @ [Sending_request, Response_received, Error_processing_file e])
       \<or> w_console (snd (reformat_transcript U loads ai E w doc))
              = w_console w @ [Sending_request, Response_received, Invalid_response, File_processing_failed])
    \<and> w_requests (snd (reformat_transcript U loads ai E w doc)) = Suc (w_requests w)"
proof -
  let ?w1 = "(print Sending_request w)\<lparr>w_requests := Suc (w_requests w)\<rparr>"
  obtain tr ft md where d: "subscript doc (str_of ''transcript'') = Inr tr"
    "combine_transcript tr = Inr ft" "subscript doc (str_of ''metadata'') = Inr md"
    using document_okD [OF doc] by blast
  have rc: "request_completion ai E w = (Some (Choices (c # others)), ?w1)"
    using E ai by (rule request_completion_ready)
  from handle_invalid [OF bad, of U "print Response_received ?w1" doc others]
  show ?thesis
  proof
    assume "\<exists>e. handle_response U loads (print Response_received ?w1) doc (Choices (c # others))
        = (Inl e, print Response_received ?w1)"
    then obtain e where "handle_response U loads (print Response_received ?w1) doc (Choices (c # others))
        = (Inl e, print Response_received ?w1)" by blast
    then show ?thesis
      by (simp add: reformat_transcript_def d rc)
  next
    assume "handle_response U loads (print Response_received ?w1) doc (Choices (c # others))
        = (Inr None, print File_processing_failed (print Invalid_response (print Response_received ?w1)))"
    then show ?thesis
      by (simp add: reformat_transcript_def d rc)
  qed
qed

text \<open>
  C1. When the first choice of the reply has no content that parses, or parses to a
  value without a non-empty \<open>title\<close>, \<open>summary\<close> or \<open>content\<close>, reformat\_transcript
  returns no document, and the files and the directories on disk are what they were.
  For a document the prompt can be built from and an engine with an active provider,
  it returns \<open>None\<close> after printing the error: "Invalid response from AI" with "File
  processing failed", or "Error processing file" with the exception.
\<close>

theorem invalid_response_rejected:
  "ai (w_requests w) = Choices (c # others) \<and> invalid_reply loads c \<longrightarrow>
     (\<forall>r. fst (reformat_transcript U loads ai E w doc) \<noteq> Inr (Some r))
     \<and> w_files (snd (reformat_transcript U loads ai E w doc)) = w_files w
     \<and> w_dirs (snd (reformat_transcript U loads ai E w doc)) = w_dirs w
     \<and> (document_ok doc \<and> engine_ready E \<longrightarrow>
          fst (reformat_transcript U loads ai E w doc) = Inr None
          \<and> ((\<exists>e. w_console (snd (reformat_transcript U loads ai E w doc))
                    = w_console w @ [Sending_request, Response_received, Error_processing_file e])
             \<or> w_console (snd (reformat_transcript U loads ai E w doc))
                    = w_console w @ [Sending_request, Response_received, Invalid_response,
                                     File_processing_failed]))"
  using reformat_transcript_rejects [of ai w c others loads U E doc]
    reformat_transcript_rejects_report [of ai w c others loads doc E U]
  by blast

lemma example_document_ok: "document_ok example_document"
  by (simp add: document_ok_def example_document_def combine_transcript_def str_of_def)

lemma example_engine_ready: "engine_ready example_engine"
  by (simp add: engine_ready_def example_engine_def)

theorem invalid_response_rejected_witness:
  "invalid_reply example_loads (Some (str_of ''{}''))
   \<and> document_ok example_document \<and> engine_ready example_engine
   \<and> fst (reformat_transcript ascii_db example_loads (\<lambda>n. Choices [Some (str_of ''{}'')])
            example_engine example_world example_document) = Inr None
   \<and> w_files (snd (reformat_transcript ascii_db example_loads (\<lambda>n. Choices [Some (str_of ''{}'')])
            example_engine example_world example_document)) = Map.empty
   \<and> w_dirs (snd (reformat_transcript ascii_db example_loads (\<lambda>n. Choices [Some (str_of ''{}'')])
            example_engine example_world example_document)) = {}"
proof -
  have a: "invalid_reply example_loads (Some (str_of ''{}''))"
    by (simp add: invalid_reply_def example_loads_def complete_response_def field_present_def
        str_of_def)
  have w: "w_files example_world = Map.empty" "w_dirs example_world = {}"
    by (simp_all add: example_world_def)
  show ?thesis
    using invalid_response_rejected [of "\<lambda>n. Choices [Some (str_of ''{}'')]" example_world
        "Some (str_of ''{}'')" "[]" example_loads ascii_db example_engine example_document]
      a example_document_ok example_engine_ready
    unfolding w by simp
qed

subsection \<open>The file that is written\<close>























section \<open>Properties of the batch operations\<close>


















section \<open>Properties of the provider registry\<close>

lemma subscript_truthy: "subscript p key = Inr v \<Longrightarrow> truthy p"
  by (cases p) (auto split: option.splits)

lemma set_provider_found:
  assumes "subscript api_keys (str_of ''ai-providers'') = Inr (JObj ps)"
    and "map_of ps pname = Some p"
    and "subscript p (str_of ''api_key'') = Inr k" and "subscript p (str_of ''base_url'') = Inr u"
  shows "set_provider (Inr api_keys) E pname = (Inr p, E\<lparr>provider := p, client := Some (k, u)\<rparr>, [])"
  using assms subscript_truthy [OF assms(3)]
  by (simp add: set_provider_def provider_setter_def set_client_def Let_def)

lemma set_provider_missing:
  assumes "subscript api_keys (str_of ''ai-providers'') = Inr (JObj ps)"
    and "map_of ps pname = None"
  shows "set_provider (Inr api_keys) E pname = (Inl TypeError, E, [Provider_not_found pname])"
  using assms by (simp add: set_provider_def Let_def)

text \<open>
  C8. Let the credentials file hold a dictionary of providers under \<open>ai-providers\<close>.
  For a name whose profile has an \<open>api_key\<close> and a \<open>base_url\<close>, set\_provider returns
  the profile, makes it the active provider and builds the client from that key and
  URL, and prints nothing. For a name that is not in the dictionary it prints that the
  provider was not found and raises (the subscript of \<open>None\<close>); the provider and the
  client of the engine are what they were.
\<close>

theorem set_provider_selects:
  "subscript api_keys (str_of ''ai-providers'') = Inr (JObj ps) \<longrightarrow>
     (map_of ps pname = Some p \<and> subscript p (str_of ''api_key'') = Inr k
        \<and> subscript p (str_of ''base_url'') = Inr u \<longrightarrow>
        set_provider (Inr api_keys) E pname
          = (Inr p, E\<lparr>provider := p, client := Some (k, u)\<rparr>, []))
     \<and> (map_of ps pname = None \<longrightarrow>
        set_provider (Inr api_keys) E pname = (Inl TypeError, E, [Provider_not_found pname]))"
  using set_provider_found [of api_keys ps pname p k u E] set_provider_missing [of api_keys ps pname E]
  by blast

lemma credentials_facts:
  "subscript (JObj example_credentials) (str_of ''ai-providers'') = Inr (JObj example_providers)"
  "map_of example_credentials (str_of ''ai-providers'') = Some (JObj example_providers)"
  "map_of example_providers (str_of ''providerB'') = Some profile_b"
  "map_of example_providers (str_of ''providerC'') = None"
  "subscript profile_b (str_of ''api_key'') = Inr (JStr (str_of ''key-b''))"
  "subscript profile_b (str_of ''base_url'') = Inr (JStr (str_of ''https://b.example''))"
  by (simp_all add: example_credentials_def example_providers_def profile_b_def str_of_def)

theorem set_provider_selects_witness:
  "subscript (JObj example_credentials) (str_of ''ai-providers'') = Inr (JObj example_providers)
   \<and> map_of example_providers (str_of ''providerB'') = Some profile_b
   \<and> set_provider (Inr (JObj example_credentials)) idle_engine (str_of ''providerB'')
       = (Inr profile_b,
          \<lparr>provider = profile_b,
           client = Some (JStr (str_of ''key-b''), JStr (str_of ''https://b.example''))\<rparr>, [])
   \<and> map_of example_providers (str_of ''providerC'') = None
   \<and> set_provider (Inr (JObj example_credentials)) idle_engine (str_of ''providerC'')
       = (Inl TypeError, idle_engine, [Provider_not_found (str_of ''providerC'')])"
proof -
  note th1 = set_provider_selects [where api_keys = "JObj example_credentials" and ps = example_providers
      and pname = "str_of ''providerB''" and p = profile_b and E = idle_engine
      and k = "JStr (str_of ''key-b'')" and u = "JStr (str_of ''https://b.example'')"]
  note th2 = set_provider_selects [where api_keys = "JObj example_credentials" and ps = example_providers
      and pname = "str_of ''providerC''" and E = idle_engine]
  have 1: "set_provider (Inr (JObj example_credentials)) idle_engine (str_of ''providerB'')
       = (Inr profile_b, idle_engine\<lparr>provider := profile_b,
           client := Some (JStr (str_of ''key-b''), JStr (str_of ''https://b.example''))\<rparr>, [])"
    using th1 credentials_facts by blast
  have 2: "set_provider (Inr (JObj example_credentials)) idle_engine (str_of ''providerC'')
       = (Inl TypeError, idle_engine, [Provider_not_found (str_of ''providerC'')])"
    using th2 credentials_facts by blast
  show ?thesis
    using credentials_facts 2 unfolding 1 by (simp add: idle_engine_def)
qed

lemma map_of_dict_set: "map_of (dict_set kvs key v) = (map_of kvs)(key \<mapsto> v)"
  by (induction kvs key v rule: dict_set.induct) auto

lemma dict_set_others:
  "filter (\<lambda>kv. fst kv \<noteq> key) (dict_set kvs key v) = filter (\<lambda>kv. fst kv \<noteq> key) kvs"
  by (induction kvs key v rule: dict_set.induct) auto

lemma selection_round_sets_default:
  assumes store: "map_of store (str_of ''ai-providers'') = Some (JObj ps)"
    and pv: "providers = filter (\<lambda>key. key \<noteq> str_of ''default'') (map fst ps)"
    and pr: "fst (print_providers (JObj ps) providers 1) = None"
    and i: "i < length providers" and dg: "isdigit U choice" and n: "py_int U choice = Some (Suc i)"
    and yes: "lower U answer \<in> set [[], str_of ''y'', str_of ''yes'']"
    and prof: "map_of ps (providers ! i) = Some profile"
  shows "\<exists>ms. selection_round U (Inr (JObj store)) (Some choice) (Some answer)
      = Return (Inr (JObj (dict_set store (str_of ''ai-providers'')
                             (JObj (dict_set ps (str_of ''default'') profile))))) ms"
proof -
  obtain ms where ms: "print_providers (JObj ps) providers 1 = (None, ms)"
    using pr by (cases "print_providers (JObj ps) providers 1") auto
  have c: "int (Suc i) - 1 = int i" by simp
  have ne: "int i \<noteq> int (length providers)" using i by simp
  have lt: "int i < int (length providers)" using i by simp
  show ?thesis
    unfolding selection_round_def
    using store pv [symmetric] ms dg n yes prof ne lt
    by (simp add: Let_def c del: of_nat_Suc)
qed

lemma select_ai_provider_sets_default:
  assumes "map_of store (str_of ''ai-providers'') = Some (JObj ps)"
    and "providers = filter (\<lambda>key. key \<noteq> str_of ''default'') (map fst ps)"
    and "fst (print_providers (JObj ps) providers 1) = None"
    and "i < length providers" and "isdigit U choice" and "py_int U choice = Some (Suc i)"
    and "lower U answer \<in> set [[], str_of ''y'', str_of ''yes'']"
    and "map_of ps (providers ! i) = Some profile"
  shows "fst (select_ai_provider U (Inr (JObj store)) (choice # answer # lines))
      = Inr (JObj (dict_set store (str_of ''ai-providers'')
                     (JObj (dict_set ps (str_of ''default'') profile))))"
proof -
  obtain ms where "selection_round U (Inr (JObj store)) (Some choice) (Some answer)
      = Return (Inr (JObj (dict_set store (str_of ''ai-providers'')
                             (JObj (dict_set ps (str_of ''default'') profile))))) ms"
    using selection_round_sets_default [OF assms] by blast
  then show ?thesis by simp
qed

text \<open>
  C4. Let the credentials file hold a dictionary with the providers under
  \<open>ai-providers\<close>, each provider but \<open>default\<close> with a \<open>name\<close> to show in the menu. When
  the operator types the number of a provider and confirms (an empty line, \<open>y\<close> or
  \<open>yes\<close> in any case), select\_ai\_provider writes the file back with the profile of
  that provider under \<open>default\<close>: the entry \<open>default\<close> is replaced or added, the other
  providers and the other entries of the file are the same, in the same order. Loading
  the file again with set\_provider for \<open>default\<close> returns that profile and builds the
  client from its \<open>api_key\<close> and \<open>base_url\<close>.
\<close>

theorem set_default_copies_profile:
  assumes "map_of store (str_of ''ai-providers'') = Some (JObj ps)"
    and "providers = filter (\<lambda>key. key \<noteq> str_of ''default'') (map fst ps)"
    and "fst (print_providers (JObj ps) providers 1) = None"
    and "i < length providers" and "isdigit U choice" and "py_int U choice = Some (Suc i)"
    and "lower U answer \<in> set [[], str_of ''y'', str_of ''yes'']"
    and "map_of ps (providers ! i) = Some profile"
    and "subscript profile (str_of ''api_key'') = Inr k"
    and "subscript profile (str_of ''base_url'') = Inr u"
  shows "fst (select_ai_provider U (Inr (JObj store)) (choice # answer # lines))
      = Inr (JObj (dict_set store (str_of ''ai-providers'')
                     (JObj (dict_set ps (str_of ''default'') profile))))
    \<and> subscript (JObj (dict_set store (str_of ''ai-providers'')
                          (JObj (dict_set ps (str_of ''default'') profile))))
         (str_of ''ai-providers'')
        = Inr (JObj (dict_set ps (str_of ''default'') profile))
    \<and> map_of (dict_set ps (str_of ''default'') profile) (str_of ''default'') = Some profile
    \<and> filter (\<lambda>kv. fst kv \<noteq> str_of ''default'') (dict_set ps (str_of ''default'') profile)
        = filter (\<lambda>kv. fst kv \<noteq> str_of ''default'') ps
    \<and> filter (\<lambda>kv. fst kv \<noteq> str_of ''ai-providers'')
          (dict_set store (str_of ''ai-providers'') (JObj (dict_set ps (str_of ''default'') profile)))
        = filter (\<lambda>kv. fst kv \<noteq> str_of ''ai-providers'') store
    \<and> set_provider (fst (select_ai_provider U (Inr (JObj store)) (choice # answer # lines))) E
          (str_of ''default'')
        = (Inr profile, E\<lparr>provider := profile, client := Some (k, u)\<rparr>, [])"
proof -
  let ?ps = "dict_set ps (str_of ''default'') profile"
  let ?store = "dict_set store (str_of ''ai-providers'') (JObj ?ps)"
  have a: "fst (select_ai_provider U (Inr (JObj store)) (choice # answer # lines)) = Inr (JObj ?store)"
    by (rule select_ai_provider_sets_default [OF assms(1-8)])
  have b: "subscript (JObj ?store) (str_of ''ai-providers'') = Inr (JObj ?ps)"
    by (simp add: map_of_dict_set)
  have c: "map_of ?ps (str_of ''default'') = Some profile"
    by (simp add: map_of_dict_set)
  have d: "set_provider (Inr (JObj ?store)) E (str_of ''default'')
      = (Inr profile, E\<lparr>provider := profile, client := Some (k, u)\<rparr>, [])"
    by (rule set_provider_found [OF b c assms(9) assms(10)])
  show ?thesis
    unfolding a using b c d by (simp add: dict_set_others)
qed

lemma menu_facts:
  "filter (\<lambda>key. key \<noteq> str_of ''default'') (map fst example_providers)
     = [str_of ''providerA'', str_of ''providerB'']"
  "fst (print_providers (JObj example_providers) [str_of ''providerA'', str_of ''providerB''] 1) = None"
  "isdigit ascii_db (str_of ''2'')" "py_int ascii_db (str_of ''2'') = Some (Suc 1)"
  "lower ascii_db (str_of ''Y'') \<in> set [[], str_of ''y'', str_of ''yes'']"
  "map_of example_providers ([str_of ''providerA'', str_of ''providerB''] ! 1) = Some profile_b"
  "dict_set example_credentials (str_of ''ai-providers'')
      (JObj (dict_set example_providers (str_of ''default'') profile_b))
    = [(str_of ''API_KEY'', JStr (str_of ''yt'')),
       (str_of ''ai-providers'',
        JObj [(str_of ''default'', profile_b), (str_of ''providerA'', profile_a),
              (str_of ''providerB'', profile_b)])]"
  by (simp_all add: example_providers_def example_credentials_def profile_a_def profile_b_def
      isdigit_def is_digit_char_def py_int_def int_max_str_digits_def is_decimal_def decimal_value_def digits_value_def
      lower_def str_of_def)

theorem set_default_copies_profile_witness:
  "map_of example_credentials (str_of ''ai-providers'') = Some (JObj example_providers)
   \<and> isdigit ascii_db (str_of ''2'') \<and> py_int ascii_db (str_of ''2'') = Some 2
   \<and> lower ascii_db (str_of ''Y'') = str_of ''y''
   \<and> fst (select_ai_provider ascii_db (Inr (JObj example_credentials)) [str_of ''2'', str_of ''Y''])
       = Inr (JObj [(str_of ''API_KEY'', JStr (str_of ''yt'')),
                    (str_of ''ai-providers'',
                     JObj [(str_of ''default'', profile_b), (str_of ''providerA'', profile_a),
                           (str_of ''providerB'', profile_b)])])
   \<and> set_provider
        (fst (select_ai_provider ascii_db (Inr (JObj example_credentials))
                [str_of ''2'', str_of ''Y'']))
        idle_engine (str_of ''default'')
       = (Inr profile_b,
          \<lparr>provider = profile_b,
           client = Some (JStr (str_of ''key-b''), JStr (str_of ''https://b.example''))\<rparr>, [])"
proof -
  have len: "1 < length [str_of ''providerA'', str_of ''providerB'']" by simp
  note th = set_default_copies_profile [where store = example_credentials and ps = example_providers
      and providers = "[str_of ''providerA'', str_of ''providerB'']" and i = 1 and U = ascii_db
      and choice = "str_of ''2''" and answer = "str_of ''Y''" and profile = profile_b
      and k = "JStr (str_of ''key-b'')" and u = "JStr (str_of ''https://b.example'')"
      and lines = "[]" and E = idle_engine,
      OF credentials_facts(2) menu_facts(1) [symmetric] menu_facts(2) len menu_facts(3,4,5,6)
        credentials_facts(5,6), unfolded menu_facts(7)]
  have l: "lower ascii_db (str_of ''Y'') = str_of ''y''"
    by (simp add: lower_def str_of_def)
  have n: "py_int ascii_db (str_of ''2'') = Some 2"
    using menu_facts(4) by simp
  have e: "idle_engine\<lparr>provider := profile_b,
        client := Some (JStr (str_of ''key-b''), JStr (str_of ''https://b.example''))\<rparr>
      = \<lparr>provider = profile_b,
         client = Some (JStr (str_of ''key-b''), JStr (str_of ''https://b.example''))\<rparr>"
    by (simp add: idle_engine_def)
  note 1 = th [THEN conjunct1]
  note 2 = th [THEN conjunct2, THEN conjunct2, THEN conjunct2, THEN conjunct2, THEN conjunct2,
      unfolded e]
  show ?thesis
    by (intro conjI) (rule credentials_facts(2) menu_facts(3) l n 1 2)+
qed

section \<open>Properties of the duplicate search\<close>



























end
